theory Spec2Isabelle
  imports Main "HOL-Library.Word"
begin

unbundle bit_operations_syntax

section \<open>Data model\<close>

text \<open>
  A JavaScript \<open>bigint\<close> is an integer of unbounded size whose bitwise operators act on
  its two's complement; HOL's \<open>int\<close> with its bit operations is the same thing, with
  \<open>push_bit n\<close> for the shift \<open><< n\<close> and \<open>drop_bit n\<close> for \<open>>> n\<close>.  Each \<open>throw\<close> of
  the modelled source is a constructor of \<open>error\<close>.
\<close>

datatype error =
    WorkerIdOutOfRange
  | DatacenterIdOutOfRange
  | ClockMovedBackwards
  | MessageEmpty
  | ChannelNotFound
  | NoSendPermission
  | NotDMRecipient
  | RateLimitExceeded
  | NotAMember
  | NotARecipient
  | TypeError
  | RecordNotFound

subsection \<open>shared/constants/permissions.ts\<close>

definition CREATE_INSTANT_INVITE :: int where "CREATE_INSTANT_INVITE = push_bit 0 1"
definition ADMINISTRATOR :: int where "ADMINISTRATOR = push_bit 3 1"
definition VIEW_CHANNEL :: int where "VIEW_CHANNEL = push_bit 10 1"
definition SEND_MESSAGES :: int where "SEND_MESSAGES = push_bit 11 1"
definition MANAGE_MESSAGES :: int where "MANAGE_MESSAGES = push_bit 13 1"
definition NONE :: int where "NONE = 0"

definition Permissions_ALL :: int where
  "Permissions_ALL = push_bit 0 1 OR push_bit 1 1 OR push_bit 2 1 OR push_bit 3 1 OR push_bit 4 1 OR push_bit 5 1 OR
                     push_bit 6 1 OR push_bit 7 1 OR push_bit 8 1 OR push_bit 9 1 OR push_bit 10 1 OR push_bit 11 1 OR
                     push_bit 12 1 OR push_bit 13 1 OR push_bit 14 1 OR push_bit 15 1 OR push_bit 16 1 OR push_bit 17 1 OR
                     push_bit 18 1 OR push_bit 19 1 OR push_bit 20 1 OR push_bit 21 1 OR push_bit 22 1 OR push_bit 23 1 OR
                     push_bit 24 1 OR push_bit 25 1 OR push_bit 29 1 OR push_bit 30 1 OR push_bit 31 1 OR push_bit 32 1 OR
                     push_bit 33 1 OR push_bit 34 1 OR push_bit 35 1 OR push_bit 36 1 OR push_bit 37 1 OR push_bit 38 1 OR
                     push_bit 39 1 OR push_bit 40 1 OR push_bit 42 1 OR push_bit 43 1 OR push_bit 44 1 OR push_bit 45 1 OR
                     push_bit 46 1"

text \<open>\<open>PermissionUtils\<close>: the bitfield primitives.\<close>

definition has :: "int \<Rightarrow> int \<Rightarrow> bool" where
  "has permissions permission = ((permissions AND permission) = permission)"

definition add :: "int \<Rightarrow> int \<Rightarrow> int" where
  "add permissions permission = permissions OR permission"

definition remove :: "int \<Rightarrow> int \<Rightarrow> int" where
  "remove permissions permission = permissions AND NOT permission"

definition toggle :: "int \<Rightarrow> int \<Rightarrow> int" where
  "toggle permissions permission = permissions XOR permission"

definition isAdministrator :: "int \<Rightarrow> bool" where
  "isAdministrator permissions = has permissions ADMINISTRATOR"

text \<open>
  A channel overwrite as \<open>calculateEffectivePermissions\<close> receives it:
  \<open>{ allow: bigint; deny: bigint }\<close>.
\<close>

record overwrite =
  allow :: int
  deny :: int

text \<open>
  The \<open>for (const overwrite of channelOverwrites)\<close> loop, with the running value of
  \<open>permissions\<close> as the accumulator.
\<close>

fun applyOverwrites :: "int \<Rightarrow> overwrite list \<Rightarrow> int" where
  "applyOverwrites permissions [] = permissions"
| "applyOverwrites permissions (ow # rest) =
     applyOverwrites ((permissions AND NOT (deny ow)) OR allow ow) rest"

definition calculateEffectivePermissions :: "int \<Rightarrow> overwrite list \<Rightarrow> int" where
  "calculateEffectivePermissions basePermissions channelOverwrites =
     applyOverwrites basePermissions channelOverwrites"

subsection \<open>shared/utils/snowflake.ts\<close>

definition CUSTOM_EPOCH :: int where "CUSTOM_EPOCH = 1609459200000"

definition TIMESTAMP_BITS :: nat where "TIMESTAMP_BITS = 42"
definition WORKER_ID_BITS :: nat where "WORKER_ID_BITS = 5"
definition DATACENTER_ID_BITS :: nat where "DATACENTER_ID_BITS = 5"
definition SEQUENCE_BITS :: nat where "SEQUENCE_BITS = 12"

definition MAX_WORKER_ID :: int where "MAX_WORKER_ID = push_bit WORKER_ID_BITS 1 - 1"
definition MAX_DATACENTER_ID :: int where "MAX_DATACENTER_ID = push_bit DATACENTER_ID_BITS 1 - 1"
definition MAX_SEQUENCE :: int where "MAX_SEQUENCE = push_bit SEQUENCE_BITS 1 - 1"

definition WORKER_ID_SHIFT :: nat where "WORKER_ID_SHIFT = SEQUENCE_BITS"
definition DATACENTER_ID_SHIFT :: nat where "DATACENTER_ID_SHIFT = SEQUENCE_BITS + WORKER_ID_BITS"
definition TIMESTAMP_SHIFT :: nat where
  "TIMESTAMP_SHIFT = SEQUENCE_BITS + WORKER_ID_BITS + DATACENTER_ID_BITS"

text \<open>
  \<open>SnowflakeConfig\<close>: every field is optional.  The \<open>number\<close> fields are modelled for
  integral values, the ones \<open>BigInt(...)\<close> accepts.
\<close>

record SnowflakeConfig =
  cfg_workerId :: "int option"
  cfg_datacenterId :: "int option"
  cfg_epoch :: "int option"

record Snowflake =
  workerId :: int
  datacenterId :: int
  epoch :: int
  sequence :: int
  lastTimestamp :: int
  lock :: bool

text \<open>\<open>x ?? d\<close>\<close>

definition nullish :: "'a option \<Rightarrow> 'a \<Rightarrow> 'a" where
  "nullish x d = (case x of None \<Rightarrow> d | Some v \<Rightarrow> v)"

text \<open>
  The constructor: both identifiers are masked first, then range-checked; either check
  throws.
\<close>

definition Snowflake_constructor :: "SnowflakeConfig \<Rightarrow> error + Snowflake" where
  "Snowflake_constructor config =
     (let w = nullish (cfg_workerId config) 1 AND MAX_WORKER_ID;
          d = nullish (cfg_datacenterId config) 1 AND MAX_DATACENTER_ID;
          e = nullish (cfg_epoch config) CUSTOM_EPOCH
      in if w < 0 \<or> w > MAX_WORKER_ID then Inl WorkerIdOutOfRange
         else if d < 0 \<or> d > MAX_DATACENTER_ID then Inl DatacenterIdOutOfRange
         else Inr \<lparr>workerId = w, datacenterId = d, epoch = e,
                   sequence = 0, lastTimestamp = - 1, lock = False\<rparr>)"

text \<open>
  The clock is the list of the values the coming calls of \<open>Date.now()\<close> return, in order;
  \<open>currentTimestamp\<close> takes the next one.  \<open>waitNextMillis\<close> reads the clock until a value
  beyond \<open>lastTimestamp\<close> arrives.  On a clock that never advances the source stays in
  that loop forever; here the readings run out and the result is \<open>None\<close>: the call has not
  returned.
\<close>

type_synonym clock = "int list"

fun waitNextMillis :: "int \<Rightarrow> clock \<Rightarrow> (int \<times> clock) option" where
  "waitNextMillis lastTs [] = None"
| "waitNextMillis lastTs (timestamp # later) =
     (if timestamp \<le> lastTs then waitNextMillis lastTs later else Some (timestamp, later))"

text \<open>The identifier composed at the end of \<open>generate\<close>.\<close>

definition composeId :: "Snowflake \<Rightarrow> int \<Rightarrow> int" where
  "composeId s timestamp =
     push_bit TIMESTAMP_SHIFT (timestamp - epoch s) OR
     push_bit DATACENTER_ID_SHIFT (datacenterId s) OR
     push_bit WORKER_ID_SHIFT (workerId s) OR
     sequence s"

text \<open>
  \<open>generate\<close> returns what the call produced (the identifier, or the error thrown), the
  generator as the call left it, and the rest of the clock.
\<close>

definition generate :: "Snowflake \<Rightarrow> clock \<Rightarrow> ((error + int) \<times> Snowflake \<times> clock) option" where
  "generate s clk =
     (case clk of
        [] \<Rightarrow> None
      | timestamp # later \<Rightarrow>
          if timestamp < lastTimestamp s then Some (Inl ClockMovedBackwards, s, later)
          else if timestamp = lastTimestamp s then
            (let s1 = s\<lparr>sequence := (sequence s + 1) AND MAX_SEQUENCE\<rparr>
             in if sequence s1 = 0 then
                  (case waitNextMillis (lastTimestamp s1) later of
                     None \<Rightarrow> None
                   | Some (timestamp', later') \<Rightarrow>
                       Some (Inr (composeId s1 timestamp'),
                             s1\<lparr>lastTimestamp := timestamp'\<rparr>, later'))
                else Some (Inr (composeId s1 timestamp), s1\<lparr>lastTimestamp := timestamp\<rparr>, later))
          else
            (let s1 = s\<lparr>sequence := 0\<rparr>
             in Some (Inr (composeId s1 timestamp), s1\<lparr>lastTimestamp := timestamp\<rparr>, later)))"

text \<open>
  \<open>new Date(Number(t))\<close> for a bigint \<open>t\<close>: a Date holds a time value of at most
  8.64e15 milliseconds in absolute value, and is the invalid date beyond.  Up to that
  bound (below \<open>2^53\<close>) \<open>Number\<close> is exact; beyond \<open>2^53\<close> it rounds to a double that is
  still beyond the bound.
\<close>

datatype Date = Date int | InvalidDate

definition new_Date :: "int \<Rightarrow> Date" where
  "new_Date t = (if \<bar>t\<bar> \<le> 8640000000000000 then Date t else InvalidDate)"

record Deconstructed =
  dec_timestamp :: Date
  dec_workerId :: int
  dec_datacenterId :: int
  dec_sequence :: int
  dec_epoch :: int

definition deconstruct :: "int \<Rightarrow> Deconstructed" where
  "deconstruct snowflake =
     (let timestamp = drop_bit TIMESTAMP_SHIFT snowflake + CUSTOM_EPOCH;
          w = drop_bit WORKER_ID_SHIFT snowflake AND MAX_WORKER_ID;
          d = drop_bit DATACENTER_ID_SHIFT snowflake AND MAX_DATACENTER_ID;
          q = snowflake AND MAX_SEQUENCE
      in \<lparr>dec_timestamp = new_Date timestamp, dec_workerId = w,
          dec_datacenterId = d, dec_sequence = q,
          dec_epoch = CUSTOM_EPOCH\<rparr>)"

text \<open>
  What the constructor establishes and \<open>generate\<close> keeps: both identifiers fit in five
  bits and the sequence in twelve.
\<close>

definition snowflake_inv :: "Snowflake \<Rightarrow> bool" where
  "snowflake_inv s =
     (0 \<le> workerId s \<and> workerId s \<le> 31 \<and>
      0 \<le> datacenterId s \<and> datacenterId s \<le> 31 \<and>
      0 \<le> sequence s \<and> sequence s \<le> 4095)"

text \<open>\<open>Date.now()\<close> returns a time value, so every reading of the clock is in the Date range.\<close>

definition valid_clock :: "clock \<Rightarrow> bool" where
  "valid_clock clk = list_all (\<lambda>t. \<bar>t\<bar> \<le> 8640000000000000) clk"

text \<open>
  \<open>n\<close> calls of \<open>generate\<close> in a row on one generator, all of which return an identifier:
  the identifiers in the order of the calls, the generator and the clock afterwards.
\<close>

fun generateN :: "nat \<Rightarrow> Snowflake \<Rightarrow> clock \<Rightarrow> (int list \<times> Snowflake \<times> clock) option" where
  "generateN 0 s clk = Some ([], s, clk)"
| "generateN (Suc n) s clk =
     (case generate s clk of
        Some (Inr i, s', clk') \<Rightarrow>
          (case generateN n s' clk' of
             Some (ids, s'', clk'') \<Rightarrow> Some (i # ids, s'', clk'')
           | None \<Rightarrow> None)
      | _ \<Rightarrow> None)"

subsection \<open>The stores\<close>

text \<open>
  The durable store behind \<open>prisma\<close>, with the tables and columns the modelled handlers
  read or write.  A channel carries its permission overwrites
  (\<open>Channel.permissionOverwrites\<close>, each a \<open>PermissionOverwrite\<close> with \<open>id\<close>, \<open>type\<close>,
  \<open>allow\<close> and \<open>deny\<close>).  A server member carries the permissions of the roles joined
  through \<open>roleMembers\<close>; the table \<open>roleMembers\<close> itself is kept as the pairs of a role
  id and the user of the server member, which is what
  \<open>findMany({ where: { roleId }, include: { serverMember: true } })\<close> reads.  A
  notification is kept with its recipient, type, message, channel and source user.
  \<open>create\<close> numbers the messages consecutively; \<open>users.update\<close> rejects when the row is
  missing; the other operations of the store are taken to succeed.
\<close>

datatype overwriteType = role_overwrite | member_overwrite

record PermissionOverwrite = overwrite +
  ow_id :: int
  ow_type :: overwriteType

record channel =
  ch_serverId :: "int option"
  ch_isDeleted :: bool
  ch_permissionOverwrites :: "PermissionOverwrite list"
  ch_lastMessageId :: "int option"

record server =
  ownerId :: int

record serverMember =
  sm_serverId :: int
  sm_userId :: int
  sm_rolePermissions :: "int list"

datatype status = online | offline | idle | dnd | invisible

record userRow =
  u_status :: status
  u_lastSeenAt :: int

record message =
  msg_id :: int
  msg_snowflakeId :: int
  msg_channelId :: int
  msg_authorId :: int
  msg_content :: "string option"
  msg_nonce :: "string option"
  msg_referencedMessageId :: "int option"
  msg_attachments :: "string list"

datatype notificationType = mention | role_ping

record notification =
  n_userId :: int
  n_type :: notificationType
  n_messageId :: int
  n_channelId :: int
  n_sourceUserId :: int

record database =
  channels :: "int \<rightharpoonup> channel"
  servers :: "int \<rightharpoonup> server"
  serverMembers :: "serverMember list"
  channelRecipients :: "(int \<times> int) list"
  users :: "int \<rightharpoonup> userRow"
  messages :: "message list"
  roleMembers :: "(int \<times> int) list"
  notifications :: "notification list"

text \<open>
  The Redis keys the modelled handlers use, by family: the rate counters
  \<open>message:rate:<author>:<channel>\<close>, the presence records \<open>presence:<user>\<close>, the sorted
  set \<open>online_users\<close>, and the socket sets \<open>ws:user:<user>\<close> with the session keys
  \<open>ws:session:<socket>\<close>.  Times are in milliseconds; a key with an expiry is gone once
  the time has reached it, and a set is gone once its last member is removed.
\<close>

record rateEntry =
  rate_count :: int
  rate_expiresAt :: "int option"

record presenceEntry =
  pr_status :: status
  pr_customStatus :: "string option"
  pr_lastSeenAt :: int
  pr_expiresAt :: int

record redisState =
  rateKeys :: "(int \<times> int) \<rightharpoonup> rateEntry"
  presenceKeys :: "int \<rightharpoonup> presenceEntry"
  onlineUsers :: "int \<rightharpoonup> int"
  wsUser :: "int \<rightharpoonup> string set"
  wsSession :: "string \<rightharpoonup> int \<times> int"

text \<open>\<open>INCR\<close>: a missing or expired key counts from 0 and has no expiry; the new count is returned.\<close>

definition rate_live :: "int \<Rightarrow> rateEntry \<Rightarrow> bool" where
  "rate_live now e = (case rate_expiresAt e of None \<Rightarrow> True | Some t \<Rightarrow> now < t)"

definition redis_incr :: "int \<Rightarrow> redisState \<Rightarrow> int \<times> int \<Rightarrow> int \<times> redisState" where
  "redis_incr now r key =
     (let e = (case rateKeys r key of
                 None \<Rightarrow> \<lparr>rate_count = 1, rate_expiresAt = None\<rparr>
               | Some e0 \<Rightarrow> if rate_live now e0 then e0\<lparr>rate_count := rate_count e0 + 1\<rparr>
                           else \<lparr>rate_count = 1, rate_expiresAt = None\<rparr>)
      in (rate_count e, r\<lparr>rateKeys := (rateKeys r)(key \<mapsto> e)\<rparr>))"

text \<open>\<open>EXPIRE key seconds\<close>\<close>

definition redis_expire :: "int \<Rightarrow> redisState \<Rightarrow> int \<times> int \<Rightarrow> int \<Rightarrow> redisState" where
  "redis_expire now r key seconds =
     (case rateKeys r key of
        None \<Rightarrow> r
      | Some e \<Rightarrow> if rate_live now e
                  then r\<lparr>rateKeys := (rateKeys r)(key \<mapsto> e\<lparr>rate_expiresAt := Some (now + seconds * 1000)\<rparr>)\<rparr>
                  else r)"

definition PRESENCE_TTL :: int where "PRESENCE_TTL = 300"

text \<open>\<open>updatePresence\<close> (config/redis)\<close>

definition updatePresence :: "int \<Rightarrow> redisState \<Rightarrow> int \<Rightarrow> status \<Rightarrow> string option \<Rightarrow> redisState" where
  "updatePresence now r userId st customStatus =
     (let r1 = r\<lparr>presenceKeys := (presenceKeys r)(userId \<mapsto>
                  \<lparr>pr_status = st, pr_customStatus = customStatus, pr_lastSeenAt = now,
                   pr_expiresAt = now + PRESENCE_TTL * 1000\<rparr>)\<rparr>
      in if st \<noteq> offline then r1\<lparr>onlineUsers := (onlineUsers r1)(userId \<mapsto> now)\<rparr>
         else r1\<lparr>onlineUsers := (onlineUsers r1)(userId := None)\<rparr>)"

text \<open>\<open>registerWebSocket\<close>, \<open>unregisterWebSocket\<close>, \<open>getUserSockets\<close>, \<open>hasActiveConnections\<close> (config/redis)\<close>

definition registerWebSocket :: "int \<Rightarrow> redisState \<Rightarrow> string \<Rightarrow> int \<Rightarrow> string \<Rightarrow> redisState" where
  "registerWebSocket now r sessionId userId socketId =
     r\<lparr>wsUser := (wsUser r)(userId \<mapsto>
          (case wsUser r userId of None \<Rightarrow> {socketId} | Some members \<Rightarrow> insert socketId members)),
       wsSession := (wsSession r)(socketId \<mapsto> (userId, now + 3600 * 1000))\<rparr>"

definition unregisterWebSocket :: "redisState \<Rightarrow> int \<Rightarrow> string \<Rightarrow> redisState" where
  "unregisterWebSocket r userId socketId =
     r\<lparr>wsUser := (case wsUser r userId of
                     None \<Rightarrow> wsUser r
                   | Some members \<Rightarrow>
                       if members - {socketId} = {} then (wsUser r)(userId := None)
                       else (wsUser r)(userId \<mapsto> members - {socketId})),
       wsSession := (wsSession r)(socketId := None)\<rparr>"

definition getUserSockets :: "redisState \<Rightarrow> int \<Rightarrow> string set" where
  "getUserSockets r userId = (case wsUser r userId of None \<Rightarrow> {} | Some members \<Rightarrow> members)"

definition hasActiveConnections :: "redisState \<Rightarrow> int \<Rightarrow> bool" where
  "hasActiveConnections r userId = (card (getUserSockets r userId) > 0)"

text \<open>
  What all gateway instances share (the durable store, Redis, the events published on the
  bus) and what each process holds on its own: the \<open>snowflake\<close> singleton with the
  readings of \<open>Date.now()\<close> to come, the maps \<open>connectedClients\<close> and \<open>userSockets\<close> of
  the gateway module, and the frames the process has emitted through \<open>io\<close>.
\<close>

datatype room = ChannelRoom int | AllSockets

datatype dispatch =
    MESSAGE_CREATE message
  | PRESENCE_UPDATE int status "string option" int

record backend =
  db :: database
  redis :: redisState
  published :: "(int \<times> dispatch) list"

record process =
  snowflakeInstance :: Snowflake
  dateNow :: clock
  connectedClients :: "string set"
  userSockets :: "int \<rightharpoonup> string set"
  emitted :: "(room \<times> dispatch) list"

subsection \<open>modules/message/message.service.ts\<close>

record CreateMessageData =
  cm_channelId :: int
  cm_authorId :: int
  cm_content :: "string option"
  cm_attachments :: "string list option"
  cm_replyTo :: "int option"
  cm_nonce :: "string option"

text \<open>Truthiness of an optional bigint (\<open>0n\<close> is falsy) and of an optional string (\<open>''\<close> is falsy).\<close>

definition truthy_bigint :: "int option \<Rightarrow> bool" where
  "truthy_bigint x = (case x of None \<Rightarrow> False | Some v \<Rightarrow> v \<noteq> 0)"

definition truthy_string :: "string option \<Rightarrow> bool" where
  "truthy_string x = (case x of None \<Rightarrow> False | Some v \<Rightarrow> v \<noteq> [])"

text \<open>\<open>prisma.serverMembers.findFirst({ where: { serverId, userId } })\<close>\<close>

definition findMember :: "database \<Rightarrow> int \<Rightarrow> int \<Rightarrow> serverMember option" where
  "findMember d serverId userId =
     find (\<lambda>m. sm_serverId m = serverId \<and> sm_userId m = userId) (serverMembers d)"

text \<open>\<open>prisma.channelRecipients.findFirst({ where: { channelId, userId } })\<close>\<close>

definition findRecipient :: "database \<Rightarrow> int \<Rightarrow> int \<Rightarrow> (int \<times> int) option" where
  "findRecipient d channelId userId =
     find (\<lambda>r. r = (channelId, userId)) (channelRecipients d)"

text \<open>The \<open>reduce\<close> over \<open>member.roleMembers\<close> that ORs the role permissions, starting from \<open>0n\<close>.\<close>

definition rolePermissions :: "serverMember \<Rightarrow> int" where
  "rolePermissions m = foldl (\<lambda>acc p. acc OR p) 0 (sm_rolePermissions m)"

definition checkChannelPermission :: "database \<Rightarrow> int \<Rightarrow> int \<Rightarrow> int \<Rightarrow> int \<Rightarrow> bool" where
  "checkChannelPermission d userId serverId channelId permission =
     (if (case servers d serverId of None \<Rightarrow> False | Some srv \<Rightarrow> ownerId srv = userId) then True
      else case findMember d serverId userId of
             None \<Rightarrow> False
           | Some m \<Rightarrow>
               (let permissions = rolePermissions m
                in if has permissions ADMINISTRATOR then True
                   else has permissions permission))"

text \<open>\<open>prisma.messages.create\<close> followed by the update of the channel's last message.\<close>

definition storeMessage :: "database \<Rightarrow> message \<Rightarrow> database" where
  "storeMessage d m =
     d\<lparr>messages := messages d @ [m],
       channels := (case channels d (msg_channelId m) of
                      None \<Rightarrow> channels d
                    | Some c \<Rightarrow> (channels d)(msg_channelId m \<mapsto> c\<lparr>ch_lastMessageId := Some (msg_id m)\<rparr>))\<rparr>"

definition nextMessageId :: "database \<Rightarrow> int" where
  "nextMessageId d = int (length (messages d)) + 1"

text \<open>
  The rate-limit block of \<open>createMessage\<close>: the new count, and Redis after \<open>incr\<close> and, for
  the count 1, \<open>expire(rateKey, 60)\<close>.
\<close>

definition rateLimitCount :: "int \<Rightarrow> redisState \<Rightarrow> int \<Rightarrow> int \<Rightarrow> int \<times> redisState" where
  "rateLimitCount now r authorId channelId =
     (let rateKey = (authorId, channelId);
          (currentCount, r1) = redis_incr now r rateKey;
          r2 = (if currentCount = 1 then redis_expire now r1 rateKey 60 else r1)
      in (currentCount, r2))"

text \<open>
  The checks of \<open>createMessage\<close> ahead of the rate limit, in the order of the source:
  content or attachments, the channel, and then for a server channel the
  \<open>SEND_MESSAGES\<close> check and for a DM channel the recipient check.  The result is the
  error thrown, if any.
\<close>

definition authorizeSend :: "database \<Rightarrow> CreateMessageData \<Rightarrow> channel \<Rightarrow> error option" where
  "authorizeSend d data ch =
     (if truthy_bigint (ch_serverId ch) then
        (case ch_serverId ch of
           None \<Rightarrow> None
         | Some serverId \<Rightarrow>
             if \<not> checkChannelPermission d (cm_authorId data) serverId (cm_channelId data) SEND_MESSAGES
             then Some NoSendPermission else None)
      else
        (case findRecipient d (cm_channelId data) (cm_authorId data) of
           None \<Rightarrow> Some NotDMRecipient
         | Some recipient \<Rightarrow> None))"

definition precheck :: "database \<Rightarrow> CreateMessageData \<Rightarrow> error option" where
  "precheck d data =
     (if \<not> truthy_string (cm_content data) \<and>
         (case cm_attachments data of None \<Rightarrow> True | Some a \<Rightarrow> length a = 0)
      then Some MessageEmpty
      else case channels d (cm_channelId data) of
        None \<Rightarrow> Some ChannelNotFound
      | Some ch \<Rightarrow> if ch_isDeleted ch then Some ChannelNotFound else authorizeSend d data ch)"

text \<open>
  \<open>extractMentions\<close>.  Each of the three patterns \<open><@!?(\d+)>\<close>, \<open><@&(\d+)>\<close> and
  \<open><#(\d+)>\<close> is an opener, for the first an optional \<open>!\<close>, one or more decimal digits and
  \<open>>\<close>; \<open>matchMention\<close> matches it at the start of a string and gives the digits and what
  follows the match, and \<open>matchAll\<close> collects the matches from left to right, going on
  behind a match and one character further where there is none.  \<open>bigintToString\<close> is
  \<open>toString()\<close> of a bigint and \<open>parseBigInt\<close> is \<open>BigInt\<close> of a string of digits.
\<close>

definition isDigit :: "char \<Rightarrow> bool" where
  "isDigit ch = (ch \<in> set ''0123456789'')"

definition matchMention :: "string \<Rightarrow> bool \<Rightarrow> string \<Rightarrow> (string \<times> string) option" where
  "matchMention opener bang s =
     (if take (length opener) s = opener then
        (let s1 = drop (length opener) s;
             s2 = (if bang \<and> take 1 s1 = ''!'' then drop 1 s1 else s1);
             digits = takeWhile isDigit s2;
             s3 = dropWhile isDigit s2
         in if digits \<noteq> [] \<and> take 1 s3 = ''>'' then Some (digits, drop 1 s3) else None)
      else None)"

function matchAll :: "string \<Rightarrow> bool \<Rightarrow> string \<Rightarrow> string list" where
  "matchAll opener bang [] = []"
| "matchAll opener bang (c # cs) =
     (case matchMention opener bang (c # cs) of
        Some (digits, rest) \<Rightarrow> digits # matchAll opener bang rest
      | None \<Rightarrow> matchAll opener bang cs)"
  by pat_completeness auto
termination
proof (relation "measure (\<lambda>(opener, bang, s). length s)")
  show "wf (measure (\<lambda>(opener, bang, s). length s))" by simp
next
  fix opener bang c cs x2 digits rest
  assume "matchMention opener bang (c # cs) = Some x2" and "(digits, rest) = x2"
  then have m: "matchMention opener bang (c # cs) = Some (digits, rest)" by simp
  have aux: "length (drop (Suc 0) (dropWhile P xs)) < n"
    if "take (Suc 0) (dropWhile P xs) = [x]" and "length xs \<le> n"
    for P and x :: char and xs n
  proof -
    from that(1) have "length (drop (Suc 0) (dropWhile P xs)) < length (dropWhile P xs)"
      by (cases "dropWhile P xs") simp_all
    also have "\<dots> \<le> length xs" by (rule length_dropWhile_le)
    finally show ?thesis using that(2) by simp
  qed
  from m have "length rest < length (c # cs)"
    by (auto simp: matchMention_def Let_def split: if_splits intro!: aux)
  then show "((opener, bang, rest), (opener, bang, c # cs)) \<in> measure (\<lambda>(opener, bang, s). length s)"
    by simp
next
  fix opener bang c cs
  show "((opener, bang, cs), (opener, bang, c # cs)) \<in> measure (\<lambda>(opener, bang, s). length s)"
    by simp
qed

function natToString :: "nat \<Rightarrow> string" where
  "natToString n =
     (if n < 10 then [''0123456789'' ! n]
      else natToString (n div 10) @ [''0123456789'' ! (n mod 10)])"
  by pat_completeness auto
termination
  by (relation "measure id") auto

declare natToString.simps [simp del]

definition bigintToString :: "int \<Rightarrow> string" where
  "bigintToString i = (if i < 0 then CHR ''-'' # natToString (nat (- i)) else natToString (nat i))"

definition digitValue :: "char \<Rightarrow> int" where
  "digitValue ch = int (length (takeWhile (\<lambda>d. d \<noteq> ch) ''0123456789''))"

definition parseBigInt :: "string \<Rightarrow> int" where
  "parseBigInt digits = foldl (\<lambda>acc ch. acc * 10 + digitValue ch) 0 digits"

record mentions =
  men_users :: "string list"
  men_roles :: "string list"
  men_channels :: "string list"

definition extractMentions :: "string \<Rightarrow> mentions" where
  "extractMentions content =
     \<lparr>men_users = matchAll ''<@'' True content,
      men_roles = matchAll ''<@&'' False content,
      men_channels = matchAll ''<#'' False content\<rparr>"

text \<open>
  \<open>createMentionNotifications\<close>.  The first loop creates a notification for every
  mentioned user whose id string is not the author's.  The second loop goes through the
  members of every mentioned role and skips the author; for any other member it builds
  the notification body from \<open>message.channel.name\<close>, and the row returned by
  \<open>messages.create\<close> was created with \<open>author\<close> and \<open>referencedMessage\<close> included but
  not \<open>channel\<close>, so this throws a TypeError.
\<close>

fun notifyMentionedUsers :: "database \<Rightarrow> message \<Rightarrow> string list \<Rightarrow> database" where
  "notifyMentionedUsers d m [] = d"
| "notifyMentionedUsers d m (userId # rest) =
     (if userId = bigintToString (msg_authorId m) then notifyMentionedUsers d m rest
      else notifyMentionedUsers
             (d\<lparr>notifications := notifications d @
                  [\<lparr>n_userId = parseBigInt userId, n_type = mention, n_messageId = msg_id m,
                    n_channelId = msg_channelId m, n_sourceUserId = msg_authorId m\<rparr>]\<rparr>)
             m rest)"

definition membersOfRole :: "database \<Rightarrow> int \<Rightarrow> int list" where
  "membersOfRole d roleId = map snd (filter (\<lambda>rm. fst rm = roleId) (roleMembers d))"

fun notifyRoleMembers :: "message \<Rightarrow> int list \<Rightarrow> error option" where
  "notifyRoleMembers m [] = None"
| "notifyRoleMembers m (userId # rest) =
     (if userId = msg_authorId m then notifyRoleMembers m rest else Some TypeError)"

fun notifyMentionedRoles :: "database \<Rightarrow> message \<Rightarrow> string list \<Rightarrow> error option" where
  "notifyMentionedRoles d m [] = None"
| "notifyMentionedRoles d m (roleId # rest) =
     (case notifyRoleMembers m (membersOfRole d (parseBigInt roleId)) of
        Some e \<Rightarrow> Some e
      | None \<Rightarrow> notifyMentionedRoles d m rest)"

definition createMentionNotifications ::
  "database \<Rightarrow> message \<Rightarrow> mentions \<Rightarrow> error option \<times> database" where
  "createMentionNotifications d m extracted =
     (let d1 = notifyMentionedUsers d m (men_users extracted)
      in (notifyMentionedRoles d1 m (men_roles extracted), d1))"

text \<open>
  \<open>createMessage\<close> at the Redis time \<open>now\<close>.  The result is the message or the error
  thrown, with the shared state and the process as the call left them; \<open>None\<close> when the
  identifier generator never returns.  The mention columns of the stored row are left
  out, and \<open>cacheMessage\<close>, whose only effect is on the message cache, is taken to
  succeed.
\<close>

definition createMessage ::
  "backend \<Rightarrow> process \<Rightarrow> int \<Rightarrow> CreateMessageData \<Rightarrow> ((error + message) \<times> backend \<times> process) option" where
  "createMessage b p now data =
     (case precheck (db b) data of
        Some e \<Rightarrow> Some (Inl e, b, p)
      | None \<Rightarrow>
          (let (currentCount, r) = rateLimitCount now (redis b) (cm_authorId data) (cm_channelId data);
               b1 = b\<lparr>redis := r\<rparr>
           in if currentCount > 30 then Some (Inl RateLimitExceeded, b1, p)
              else case generate (snowflakeInstance p) (dateNow p) of
                None \<Rightarrow> None
              | Some (Inl e, g, clk) \<Rightarrow>
                  Some (Inl e, b1, p\<lparr>snowflakeInstance := g, dateNow := clk\<rparr>)
              | Some (Inr snowflakeId, g, clk) \<Rightarrow>
                  (let processedContent = nullish (cm_content data) [];
                       extractedMentions = extractMentions processedContent;
                       m = \<lparr>msg_id = nextMessageId (db b1), msg_snowflakeId = snowflakeId,
                            msg_channelId = cm_channelId data, msg_authorId = cm_authorId data,
                            msg_content = Some processedContent,
                            msg_nonce = cm_nonce data,
                            msg_referencedMessageId = cm_replyTo data,
                            msg_attachments = nullish (cm_attachments data) []\<rparr>;
                       p1 = p\<lparr>snowflakeInstance := g, dateNow := clk\<rparr>
                   in case createMentionNotifications (storeMessage (db b1) m) m extractedMentions of
                        (Some e, d) \<Rightarrow> Some (Inl e, b1\<lparr>db := d\<rparr>, p1)
                      | (None, d) \<Rightarrow> Some (Inr m, b1\<lparr>db := d\<rparr>, p1))))"


subsection \<open>The gateway (shared/middleware/auth.ts)\<close>

text \<open>A socket with the two fields of \<open>socket.data\<close> the handlers read; the user by its id.\<close>

record socket =
  socket_id :: string
  data_authenticated :: bool
  data_user :: "int option"

record MessageCreatePayload =
  mc_channelId :: int
  mc_content :: "string option"
  mc_nonce :: "string option"
  mc_replyTo :: "int option"
  mc_attachments :: "string list option"

text \<open>The frames the \<open>MESSAGE_CREATE\<close> listener sends back to the origin socket.\<close>

datatype reply = MESSAGE_ACK "string option" int | MESSAGE_ERROR "string option" error

text \<open>The block of \<open>handleMessageCreate\<close> under the comment \<open>Check permissions\<close>.\<close>

definition authorizeGatewaySend :: "database \<Rightarrow> int \<Rightarrow> int \<Rightarrow> channel \<Rightarrow> error option" where
  "authorizeGatewaySend d userId channelId ch =
     (if truthy_bigint (ch_serverId ch) then
        (case ch_serverId ch of
           None \<Rightarrow> None
         | Some serverId \<Rightarrow>
             (case findMember d serverId userId of
                None \<Rightarrow> Some NotAMember
              | Some m \<Rightarrow> None))
      else
        (case findRecipient d channelId userId of
           None \<Rightarrow> Some NotARecipient
         | Some recipient \<Rightarrow> None))"

text \<open>
  \<open>handleMessageCreate\<close> for the user of the socket.  The broadcast to the room of the
  channel is recorded in \<open>emitted\<close>, the event for the other instances in \<open>published\<close>.
  The mention notifications are left out.
\<close>

definition handleMessageCreate ::
  "backend \<Rightarrow> process \<Rightarrow> int \<Rightarrow> MessageCreatePayload \<Rightarrow>
     ((error + message) \<times> backend \<times> process) option" where
  "handleMessageCreate b p userId data =
     (case channels (db b) (mc_channelId data) of
        None \<Rightarrow> Some (Inl ChannelNotFound, b, p)
      | Some ch \<Rightarrow>
          (case authorizeGatewaySend (db b) userId (mc_channelId data) ch of
             Some e \<Rightarrow> Some (Inl e, b, p)
           | None \<Rightarrow>
               (case generate (snowflakeInstance p) (dateNow p) of
                  None \<Rightarrow> None
                | Some (Inl e, g, clk) \<Rightarrow>
                    Some (Inl e, b, p\<lparr>snowflakeInstance := g, dateNow := clk\<rparr>)
                | Some (Inr snowflakeId, g, clk) \<Rightarrow>
                    (let m = \<lparr>msg_id = nextMessageId (db b), msg_snowflakeId = snowflakeId,
                              msg_channelId = mc_channelId data, msg_authorId = userId,
                              msg_content = mc_content data, msg_nonce = mc_nonce data,
                              msg_referencedMessageId =
                                (if truthy_bigint (mc_replyTo data) then mc_replyTo data else None),
                              msg_attachments = nullish (mc_attachments data) []\<rparr>;
                         b1 = b\<lparr>db := storeMessage (db b) m\<rparr>;
                         p1 = p\<lparr>snowflakeInstance := g, dateNow := clk,
                                emitted := emitted p @ [(ChannelRoom (mc_channelId data), MESSAGE_CREATE m)]\<rparr>;
                         b2 = b1\<lparr>published := published b1 @ [(mc_channelId data, MESSAGE_CREATE m)]\<rparr>
                     in Some (Inr m, b2, p1)))))"

text \<open>
  The \<open>MESSAGE_CREATE\<close> listener: nothing for a socket that is not authenticated,
  otherwise the acknowledgement or the error frame for the origin socket.  On a socket
  marked authenticated but without a user, reading \<open>socket.data.user.id\<close> throws a
  TypeError inside the \<open>try\<close>, which the listener answers with the error frame.
\<close>

definition onMessageCreate ::
  "backend \<Rightarrow> process \<Rightarrow> socket \<Rightarrow> MessageCreatePayload \<Rightarrow>
     (reply option \<times> backend \<times> process) option" where
  "onMessageCreate b p sock data =
     (if \<not> data_authenticated sock then Some (None, b, p)
      else case data_user sock of
        None \<Rightarrow> Some (Some (MESSAGE_ERROR (mc_nonce data) TypeError), b, p)
      | Some userId \<Rightarrow>
          (case handleMessageCreate b p userId data of
             None \<Rightarrow> None
           | Some (Inr m, b', p') \<Rightarrow> Some (Some (MESSAGE_ACK (mc_nonce data) (msg_id m)), b', p')
           | Some (Inl e, b', p') \<Rightarrow> Some (Some (MESSAGE_ERROR (mc_nonce data) e), b', p')))"

text \<open>\<open>broadcastPresence\<close>: one \<open>PRESENCE_UPDATE\<close> frame through \<open>io.emit\<close>.\<close>

definition broadcastPresence :: "int \<Rightarrow> process \<Rightarrow> int \<Rightarrow> status \<Rightarrow> string option \<Rightarrow> process" where
  "broadcastPresence now p userId st customStatus =
     p\<lparr>emitted := emitted p @ [(AllSockets, PRESENCE_UPDATE userId st customStatus now)]\<rparr>"

text \<open>
  \<open>prisma.users.update({ where: { id }, data: { status, lastSeenAt } })\<close>: the store
  with the row updated, or \<open>None\<close> when there is no such row and the call rejects.
\<close>

definition updateUserStatus :: "database \<Rightarrow> int \<Rightarrow> status \<Rightarrow> int \<Rightarrow> database option" where
  "updateUserStatus d userId st now =
     (case users d userId of
        None \<Rightarrow> None
      | Some u \<Rightarrow> Some (d\<lparr>users := (users d)(userId \<mapsto> u\<lparr>u_status := st, u_lastSeenAt := now\<rparr>)\<rparr>))"

text \<open>
  The \<open>IDENTIFY\<close> listener once the token, the user and the session have been accepted:
  the socket is marked, registered in Redis and added to \<open>userSockets\<close>, and the presence
  is set to online and broadcast.  The first component is the error thrown, if any, with
  the state at the throw; the \<open>catch\<close> block then sends \<open>INVALID_SESSION\<close> and
  disconnects the socket.  (The \<open>READY\<close> frame and the room joins are left out.)
\<close>

definition onIdentified ::
  "backend \<Rightarrow> process \<Rightarrow> int \<Rightarrow> socket \<Rightarrow> string \<Rightarrow> int \<Rightarrow>
     error option \<times> socket \<times> backend \<times> process" where
  "onIdentified b p now sock sessionId userId =
     (let sock1 = sock\<lparr>data_user := Some userId, data_authenticated := True\<rparr>;
          b1 = b\<lparr>redis := registerWebSocket now (redis b) sessionId userId (socket_id sock)\<rparr>;
          p1 = p\<lparr>userSockets := (userSockets p)(userId \<mapsto>
                  (case userSockets p userId of
                     None \<Rightarrow> {socket_id sock}
                   | Some sockets \<Rightarrow> insert (socket_id sock) sockets))\<rparr>;
          b2 = b1\<lparr>redis := updatePresence now (redis b1) userId online None\<rparr>
      in case updateUserStatus (db b2) userId online now of
           None \<Rightarrow> (Some RecordNotFound, sock1, b2, p1)
         | Some d \<Rightarrow> (None, sock1, b2\<lparr>db := d\<rparr>, broadcastPresence now p1 userId online None))"

text \<open>
  The \<open>disconnect\<close> listener.  The first component is the error with which the listener
  rejects, if any, with the state at that point.
\<close>

definition onDisconnect ::
  "backend \<Rightarrow> process \<Rightarrow> int \<Rightarrow> socket \<Rightarrow> error option \<times> backend \<times> process" where
  "onDisconnect b p now sock =
     (let p1 = p\<lparr>connectedClients := connectedClients p - {socket_id sock}\<rparr>
      in case (if data_authenticated sock then data_user sock else None) of
           None \<Rightarrow> (None, b, p1)
         | Some userId \<Rightarrow>
             (let b1 = b\<lparr>redis := unregisterWebSocket (redis b) userId (socket_id sock)\<rparr>
              in case userSockets p1 userId of
                   None \<Rightarrow> (None, b1, p1)
                 | Some sockets \<Rightarrow>
                     (let sockets' = sockets - {socket_id sock}
                      in if sockets' = {} then
                           (let p2 = p1\<lparr>userSockets := (userSockets p1)(userId := None)\<rparr>;
                                b2 = b1\<lparr>redis := updatePresence now (redis b1) userId offline None\<rparr>
                            in case updateUserStatus (db b2) userId offline now of
                                 None \<Rightarrow> (Some RecordNotFound, b2, p2)
                               | Some d \<Rightarrow>
                                   (None, b2\<lparr>db := d\<rparr>,
                                    broadcastPresence now p2 userId offline None))
                         else (None, b1, p1\<lparr>userSockets := (userSockets p1)(userId \<mapsto> sockets')\<rparr>))))"

section \<open>Permission engine\<close>

lemma permission_values:
  "ADMINISTRATOR = 8" "VIEW_CHANNEL = 1024" "SEND_MESSAGES = 2048" "MANAGE_MESSAGES = 8192"
  by (simp_all add: ADMINISTRATOR_def VIEW_CHANNEL_def SEND_MESSAGES_def MANAGE_MESSAGES_def)

lemma ALL_value: "Permissions_ALL = 138537995337727"
  by (simp add: Permissions_ALL_def)


text \<open>
  C3.  Without overwrites the base comes back unchanged, for every base; every further
  overwrite is applied to the result of the ones before it as
  \<open>(current & ~deny) | allow\<close>, so the overwrites act in the order of the list; and for
  the base \<open>SEND_MESSAGES | VIEW_CHANNEL\<close> a denial of \<open>SEND_MESSAGES\<close> followed by a grant
  of it leaves \<open>SEND_MESSAGES\<close> in the result.
\<close>

theorem C3_overwrites_in_order:
  "calculateEffectivePermissions base [] = base \<and>
   calculateEffectivePermissions base (ows @ [ow]) =
     ((calculateEffectivePermissions base ows AND NOT (deny ow)) OR allow ow) \<and>
   has (calculateEffectivePermissions (SEND_MESSAGES OR VIEW_CHANNEL)
          [\<lparr>allow = NONE, deny = SEND_MESSAGES\<rparr>, \<lparr>allow = SEND_MESSAGES, deny = NONE\<rparr>])
       SEND_MESSAGES"
proof -
  have snoc: "applyOverwrites p (xs @ [ow]) = ((applyOverwrites p xs AND NOT (deny ow)) OR allow ow)"
    for p xs
    by (induction xs arbitrary: p) simp_all
  show ?thesis
    by (simp add: calculateEffectivePermissions_def snoc has_def permission_values NONE_def)
qed

text \<open>
  The order matters: the same two overwrites the other way round remove
  \<open>SEND_MESSAGES\<close>.
\<close>

lemma overwrites_reversed:
  "\<not> has (calculateEffectivePermissions (SEND_MESSAGES OR VIEW_CHANNEL)
            [\<lparr>allow = SEND_MESSAGES, deny = NONE\<rparr>, \<lparr>allow = NONE, deny = SEND_MESSAGES\<rparr>])
          SEND_MESSAGES"
  by (simp add: calculateEffectivePermissions_def has_def permission_values NONE_def)

text \<open>
  C1.  \<open>calculateEffectivePermissions\<close> has no administrator branch.  For the base
  \<open>ADMINISTRATOR | SEND_MESSAGES\<close>, which \<open>isAdministrator\<close> accepts, and the single
  overwrite denying \<open>SEND_MESSAGES\<close>, the overwrite is applied: the result is
  \<open>ADMINISTRATOR\<close> alone, which is not the full permission set and lacks
  \<open>SEND_MESSAGES\<close>.  Without any overwrite an administrator base comes back as it is,
  not as the full set.
\<close>

theorem C1_administrator_overwrites_applied:
  "isAdministrator (ADMINISTRATOR OR SEND_MESSAGES) \<and>
   calculateEffectivePermissions (ADMINISTRATOR OR SEND_MESSAGES)
     [\<lparr>allow = NONE, deny = SEND_MESSAGES\<rparr>] = ADMINISTRATOR \<and>
   ADMINISTRATOR \<noteq> Permissions_ALL \<and>
   \<not> has ADMINISTRATOR SEND_MESSAGES \<and>
   calculateEffectivePermissions ADMINISTRATOR [] \<noteq> Permissions_ALL"
  by (simp add: calculateEffectivePermissions_def isAdministrator_def has_def permission_values
      NONE_def ALL_value)

section \<open>Identifier generator\<close>

lemma snowflake_constants:
  "MAX_WORKER_ID = 31" "MAX_DATACENTER_ID = 31" "MAX_SEQUENCE = 4095"
  "WORKER_ID_SHIFT = 12" "DATACENTER_ID_SHIFT = 17" "TIMESTAMP_SHIFT = 22"
  by (simp_all add: MAX_WORKER_ID_def MAX_DATACENTER_ID_def MAX_SEQUENCE_def WORKER_ID_SHIFT_def
      DATACENTER_ID_SHIFT_def TIMESTAMP_SHIFT_def WORKER_ID_BITS_def DATACENTER_ID_BITS_def
      SEQUENCE_BITS_def)

lemma and_31_mod: "(x::int) AND 31 = x mod 32"
proof -
  have "x AND 31 = x AND mask 5" by (simp add: mask_eq_exp_minus_1)
  also have "\<dots> = take_bit 5 x" by (simp add: take_bit_eq_mask)
  also have "\<dots> = x mod 32" by (simp add: take_bit_eq_mod)
  finally show ?thesis .
qed

lemma and_4095_mod: "(x::int) AND 4095 = x mod 4096"
proof -
  have "x AND 4095 = x AND mask 12" by (simp add: mask_eq_exp_minus_1)
  also have "\<dots> = take_bit 12 x" by (simp add: take_bit_eq_mask)
  also have "\<dots> = x mod 4096" by (simp add: take_bit_eq_mod)
  finally show ?thesis .
qed

lemma or_low_bits:
  assumes "0 \<le> b" "b < 2 ^ n"
  shows "push_bit n a OR b = a * 2 ^ n + (b::int)"
proof -
  have low: "take_bit n b = b" using assms by (simp add: take_bit_int_eq_self)
  then have "push_bit n a OR b = concat_bit n b a"
    by (simp add: concat_bit_def or.commute)
  also have "\<dots> = take_bit n b + push_bit n a" by (rule concat_bit_eq)
  finally show ?thesis using low by (simp add: push_bit_eq_mult)
qed

text \<open>With five-bit identifiers and a twelve-bit sequence the fields do not overlap.\<close>

lemma composeId_sum:
  assumes "snowflake_inv s"
  shows "composeId s t =
     (t - epoch s) * 4194304 + datacenterId s * 131072 + workerId s * 4096 + sequence s"
proof -
  from assms have r: "0 \<le> workerId s" "workerId s \<le> 31" "0 \<le> datacenterId s"
    "datacenterId s \<le> 31" "0 \<le> sequence s" "sequence s \<le> 4095"
    by (simp_all add: snowflake_inv_def)
  have a: "push_bit 12 (workerId s) OR sequence s = workerId s * 4096 + sequence s"
    using or_low_bits [of "sequence s" 12 "workerId s"] r by simp
  have b: "push_bit 17 (datacenterId s) OR (workerId s * 4096 + sequence s) =
      datacenterId s * 131072 + (workerId s * 4096 + sequence s)"
    using or_low_bits [of "workerId s * 4096 + sequence s" 17 "datacenterId s"] r by simp
  have c: "push_bit 22 (t - epoch s) OR
        (datacenterId s * 131072 + (workerId s * 4096 + sequence s)) =
      (t - epoch s) * 4194304 + (datacenterId s * 131072 + (workerId s * 4096 + sequence s))"
    using or_low_bits
      [of "datacenterId s * 131072 + (workerId s * 4096 + sequence s)" 22 "t - epoch s"] r
    by simp
  show ?thesis
    unfolding composeId_def snowflake_constants a b c by simp
qed

lemma Snowflake_constructor_never_throws:
  "\<exists>s. Snowflake_constructor config = Inr s \<and> snowflake_inv s"
proof -
  have "0 \<le> (x::int) AND 31 \<and> x AND 31 \<le> 31" for x
    by (simp add: AND_upper2)
  then show ?thesis
    by (simp add: Snowflake_constructor_def Let_def snowflake_constants snowflake_inv_def
        not_less [symmetric])
qed

text \<open>
  C4.  The constructor masks both identifiers with \<open>& 31\<close> before it checks their range,
  so the checks never fire: the worker identifier 32 is taken as 0 and the datacenter
  identifier \<open>-1\<close> as 31, and the generator is constructed.
\<close>

theorem C4_out_of_range_ids_coerced:
  "Snowflake_constructor \<lparr>cfg_workerId = Some 32, cfg_datacenterId = Some (- 1), cfg_epoch = None\<rparr> =
     Inr \<lparr>workerId = 0, datacenterId = 31, epoch = CUSTOM_EPOCH,
          sequence = 0, lastTimestamp = - 1, lock = False\<rparr>"
  by (simp add: Snowflake_constructor_def Let_def snowflake_constants nullish_def)

lemma waitNextMillis_Some:
  "waitNextMillis l clk = Some (t, clk') \<Longrightarrow>
     l < t \<and> (\<exists>stalled. clk = stalled @ t # clk' \<and> (\<forall>x \<in> set stalled. x \<le> l))"
proof (induction clk)
  case Nil
  then show ?case by simp
next
  case (Cons a clk)
  show ?case
  proof (cases "a \<le> l")
    case True
    with Cons.prems have "waitNextMillis l clk = Some (t, clk')" by simp
    from Cons.IH [OF this] obtain stalled where
      "l < t" "clk = stalled @ t # clk'" "\<forall>x \<in> set stalled. x \<le> l" by blast
    with True have "a # clk = (a # stalled) @ t # clk' \<and> (\<forall>x \<in> set (a # stalled). x \<le> l)"
      by simp
    with \<open>l < t\<close> show ?thesis by blast
  next
    case False
    with Cons.prems have "t = a" "clk' = clk" by simp_all
    with False have "a # clk = [] @ t # clk' \<and> (\<forall>x \<in> set []. x \<le> l)" by simp
    with False \<open>t = a\<close> show ?thesis by (metis not_le)
  qed
qed

lemma waitNextMillis_advances:
  "\<forall>x \<in> set stalled. x \<le> l \<Longrightarrow> l < t \<Longrightarrow>
     waitNextMillis l (stalled @ t # later) = Some (t, later)"
  by (induction stalled) simp_all

text \<open>What a call of \<open>generate\<close> that returns an identifier has done.\<close>

lemma seq_step:
  "0 \<le> (q::int) \<Longrightarrow> q < 4095 \<Longrightarrow> (q + 1) AND 4095 = q + 1"
  "(4095 + 1) AND 4095 = (0::int)"
  unfolding and_4095_mod by simp_all

lemma composeId_lastTimestamp [simp]: "composeId (s\<lparr>lastTimestamp := t\<rparr>) x = composeId s x"
  by (simp add: composeId_def)

lemma generate_Inr:
  assumes "generate s clk = Some (Inr i, s', clk')" and "snowflake_inv s"
  shows "i = composeId s' (lastTimestamp s')"
    and "workerId s' = workerId s" and "datacenterId s' = datacenterId s"
    and "epoch s' = epoch s" and "lock s' = lock s"
    and "0 \<le> sequence s'" and "sequence s' \<le> 4095"
    and "lastTimestamp s' \<in> set clk"
    and "lastTimestamp s \<le> lastTimestamp s'"
    and "lastTimestamp s' = lastTimestamp s \<Longrightarrow> sequence s' = sequence s + 1"
    and "lastTimestamp s' \<noteq> lastTimestamp s \<Longrightarrow> sequence s' = 0"
proof -
  from assms(2) have q: "0 \<le> sequence s" "sequence s \<le> 4095"
    by (simp_all add: snowflake_inv_def)
  consider (wrap) "sequence s = 4095" | (step) "sequence s < 4095" using q by linarith
  then have "i = composeId s' (lastTimestamp s') \<and>
    workerId s' = workerId s \<and> datacenterId s' = datacenterId s \<and>
    epoch s' = epoch s \<and> lock s' = lock s \<and>
    0 \<le> sequence s' \<and> sequence s' \<le> 4095 \<and>
    lastTimestamp s' \<in> set clk \<and>
    lastTimestamp s \<le> lastTimestamp s' \<and>
    (lastTimestamp s' = lastTimestamp s \<longrightarrow> sequence s' = sequence s + 1) \<and>
    (lastTimestamp s' \<noteq> lastTimestamp s \<longrightarrow> sequence s' = 0)"
  proof cases
    case wrap
    with assms(1) show ?thesis
      by (auto simp: generate_def Let_def snowflake_constants seq_step(2)
          split: list.splits if_splits option.splits dest!: waitNextMillis_Some)
  next
    case step
    with assms(1) q seq_step(1) [of "sequence s"] show ?thesis
      by (auto simp: generate_def Let_def snowflake_constants
          split: list.splits if_splits option.splits dest!: waitNextMillis_Some)
  qed
  then show "i = composeId s' (lastTimestamp s')"
    and "workerId s' = workerId s" and "datacenterId s' = datacenterId s"
    and "epoch s' = epoch s" and "lock s' = lock s"
    and "0 \<le> sequence s'" and "sequence s' \<le> 4095"
    and "lastTimestamp s' \<in> set clk"
    and "lastTimestamp s \<le> lastTimestamp s'"
    and "lastTimestamp s' = lastTimestamp s \<Longrightarrow> sequence s' = sequence s + 1"
    and "lastTimestamp s' \<noteq> lastTimestamp s \<Longrightarrow> sequence s' = 0"
    by simp_all
qed

lemma generate_inv:
  assumes "generate s clk = Some (r, s', clk')" and "snowflake_inv s"
  shows "snowflake_inv s'"
proof (cases r)
  case (Inl e)
  with assms show ?thesis
    by (auto simp: generate_def Let_def split: list.splits if_splits option.splits)
next
  case (Inr i)
  with assms generate_Inr [of s clk i s' clk'] show ?thesis
    by (simp add: snowflake_inv_def)
qed

lemma split_field:
  assumes "0 \<le> (b::int)" "b < n"
  shows "(a * n + b) div n = a" and "(a * n + b) mod n = b"
  using assms by (simp_all add: div_pos_pos_trivial mod_pos_pos_trivial)

lemma fields_of_sum:
  fixes T d w q :: int
  assumes "0 \<le> w" "w \<le> 31" "0 \<le> d" "d \<le> 31" "0 \<le> q" "q \<le> 4095"
  defines "i \<equiv> T * 4194304 + d * 131072 + w * 4096 + q"
  shows "i div 4194304 = T" and "(i div 131072) mod 32 = d"
    and "(i div 4096) mod 32 = w" and "i mod 4096 = q"
proof -
  have "i = T * 4194304 + (d * 131072 + w * 4096 + q)" by (simp add: i_def)
  then show "i div 4194304 = T"
    using split_field(1) [of "d * 131072 + w * 4096 + q" 4194304 T] assms(1-6) by simp
  have "i = (T * 32 + d) * 131072 + (w * 4096 + q)" by (simp add: i_def)
  then have "i div 131072 = T * 32 + d"
    using split_field(1) [of "w * 4096 + q" 131072 "T * 32 + d"] assms(1-6) by simp
  then show "(i div 131072) mod 32 = d"
    using split_field(2) [of d 32 T] assms(1-6) by simp
  have low: "i = ((T * 32 + d) * 32 + w) * 4096 + q" by (simp add: i_def)
  then have "i div 4096 = (T * 32 + d) * 32 + w"
    using split_field(1) [of q 4096 "(T * 32 + d) * 32 + w"] assms(1-6) by simp
  then show "(i div 4096) mod 32 = w"
    using split_field(2) [of w 32 "T * 32 + d"] assms(1-6) by simp
  show "i mod 4096 = q"
    using low split_field(2) [of q 4096 "(T * 32 + d) * 32 + w"] assms(1-6) by simp
qed

lemma deconstruct_composeId:
  assumes "snowflake_inv s"
  shows "deconstruct (composeId s t) =
    \<lparr>dec_timestamp = new_Date (t - epoch s + CUSTOM_EPOCH), dec_workerId = workerId s,
     dec_datacenterId = datacenterId s, dec_sequence = sequence s, dec_epoch = CUSTOM_EPOCH\<rparr>"
proof -
  from assms have r: "0 \<le> workerId s" "workerId s \<le> 31" "0 \<le> datacenterId s"
    "datacenterId s \<le> 31" "0 \<le> sequence s" "sequence s \<le> 4095"
    by (simp_all add: snowflake_inv_def)
  note f = fields_of_sum [OF r, of "t - epoch s"]
  have p: "(2::int) ^ 22 = 4194304" "(2::int) ^ 17 = 131072" "(2::int) ^ 12 = 4096"
    by simp_all
  show ?thesis
    unfolding composeId_sum [OF assms] deconstruct_def Let_def snowflake_constants
      and_31_mod and_4095_mod drop_bit_int_def p f
    by simp
qed


lemma generate_new_ms:
  "lastTimestamp s < t \<Longrightarrow>
   generate s (t # later) =
     Some (Inr (composeId (s\<lparr>sequence := 0\<rparr>) t), s\<lparr>sequence := 0, lastTimestamp := t\<rparr>, later)"
  by (simp add: generate_def Let_def)

lemma generate_same_ms:
  "0 \<le> sequence s \<Longrightarrow> sequence s < 4095 \<Longrightarrow>
   generate s (lastTimestamp s # later) =
     Some (Inr (composeId (s\<lparr>sequence := sequence s + 1\<rparr>) (lastTimestamp s)),
           s\<lparr>sequence := sequence s + 1\<rparr>, later)"
  using seq_step(1) [of "sequence s"]
  by (simp add: generate_def Let_def snowflake_constants)

lemma generate_overflow:
  assumes "sequence s = 4095" and "\<forall>x \<in> set stalled. x \<le> lastTimestamp s"
    and "lastTimestamp s < t'"
  shows "generate s (lastTimestamp s # stalled @ t' # later) =
     Some (Inr (composeId (s\<lparr>sequence := 0\<rparr>) t'), s\<lparr>sequence := 0, lastTimestamp := t'\<rparr>, later)"
  using assms seq_step(2) waitNextMillis_advances [of stalled "lastTimestamp s" t' later]
  by (simp add: generate_def Let_def snowflake_constants)

lemma generateN_same_ms:
  assumes "0 \<le> sequence s" and "sequence s + int n \<le> 4095"
  shows "generateN n s (replicate n (lastTimestamp s) @ later) =
     Some (map (\<lambda>k. composeId (s\<lparr>sequence := sequence s + 1 + int k\<rparr>) (lastTimestamp s)) [0..<n],
           s\<lparr>sequence := sequence s + int n\<rparr>, later)"
  using assms
proof (induction n arbitrary: s)
  case 0
  then show ?case by simp
next
  case (Suc n)
  let ?s1 = "s\<lparr>sequence := sequence s + 1\<rparr>"
  have g: "generate s (lastTimestamp s # replicate n (lastTimestamp s) @ later) =
     Some (Inr (composeId ?s1 (lastTimestamp s)), ?s1, replicate n (lastTimestamp s) @ later)"
    using generate_same_ms [of s] Suc.prems by simp
  have ih: "generateN n ?s1 (replicate n (lastTimestamp ?s1) @ later) =
     Some (map (\<lambda>k. composeId (?s1\<lparr>sequence := sequence ?s1 + 1 + int k\<rparr>) (lastTimestamp ?s1)) [0..<n],
           ?s1\<lparr>sequence := sequence ?s1 + int n\<rparr>, later)"
    using Suc.IH [of ?s1] Suc.prems by simp
  have m: "map (\<lambda>k. composeId (s\<lparr>sequence := sequence s + 1 + int k\<rparr>) (lastTimestamp s)) [0..<Suc n] =
     composeId ?s1 (lastTimestamp s) #
     map (\<lambda>k. composeId (s\<lparr>sequence := sequence s + 1 + 1 + int k\<rparr>) (lastTimestamp s)) [0..<n]"
  proof -
    have "[0..<Suc n] = 0 # map Suc [0..<n]"
      by (simp add: upt_conv_Cons map_Suc_upt del: upt_Suc)
    then show ?thesis
      by (simp add: comp_def add.assoc del: upt_Suc)
  qed
  show ?case
    using g ih unfolding m by (simp add: add.assoc)
qed


lemma generateN_add:
  "generateN m s clk = Some (ids1, s1, clk1) \<Longrightarrow>
   generateN n s1 clk1 = Some (ids2, s2, clk2) \<Longrightarrow>
   generateN (m + n) s clk = Some (ids1 @ ids2, s2, clk2)"
proof (induction m arbitrary: s clk ids1)
  case 0
  then show ?case by simp
next
  case (Suc m)
  from Suc.prems(1) obtain i s' clk' ids' where
    g: "generate s clk = Some (Inr i, s', clk')"
    and r: "generateN m s' clk' = Some (ids', s1, clk1)" and e: "ids1 = i # ids'"
    by (auto split: option.splits sum.splits prod.splits)
  from Suc.IH [OF r Suc.prems(2)] g e show ?case by simp
qed

lemma composeId_sequence_only [simp]:
  "composeId (s\<lparr>lastTimestamp := t, sequence := b\<rparr>) x = composeId (s\<lparr>sequence := b\<rparr>) x"
  by (simp add: composeId_def)

text \<open>A burst of up to 4096 calls in a fresh millisecond.\<close>

lemma generateN_burst:
  assumes "lastTimestamp s < t" and "0 < n" and "n \<le> 4096"
  shows "generateN n s (replicate n t @ later) =
     Some (map (\<lambda>k. composeId (s\<lparr>sequence := int k\<rparr>) t) [0..<n],
           s\<lparr>sequence := int n - 1, lastTimestamp := t\<rparr>, later)"
proof -
  from assms(2) obtain m where n: "n = Suc m" by (cases n) simp_all
  let ?s0 = "s\<lparr>sequence := 0, lastTimestamp := t\<rparr>"
  have first: "generate s (t # replicate m t @ later) =
      Some (Inr (composeId (s\<lparr>sequence := 0\<rparr>) t), ?s0, replicate m t @ later)"
    by (rule generate_new_ms [OF assms(1)])
  have "generateN m ?s0 (replicate m (lastTimestamp ?s0) @ later) =
     Some (map (\<lambda>k. composeId (?s0\<lparr>sequence := sequence ?s0 + 1 + int k\<rparr>) (lastTimestamp ?s0)) [0..<m],
           ?s0\<lparr>sequence := sequence ?s0 + int m\<rparr>, later)"
    using assms(3) n by (intro generateN_same_ms) simp_all
  then have rest: "generateN m ?s0 (replicate m t @ later) =
     Some (map (\<lambda>k. composeId (s\<lparr>sequence := 1 + int k\<rparr>) t) [0..<m],
           s\<lparr>sequence := int m, lastTimestamp := t\<rparr>, later)"
    by simp
  have ups: "[0..<Suc m] = 0 # map Suc [0..<m]"
    by (simp add: upt_conv_Cons map_Suc_upt del: upt_Suc)
  show ?thesis
    unfolding n ups using first rest by (simp add: comp_def add.commute)
qed

lemma generateN_4097:
  assumes "lastTimestamp s < t" and "\<forall>x \<in> set stalled. x \<le> t" and "t < t'"
  shows "generateN 4097 s (replicate 4096 t @ t # stalled @ t' # later) =
     Some (map (\<lambda>k. composeId (s\<lparr>sequence := int k\<rparr>) t) [0..<4096] @
             [composeId (s\<lparr>sequence := 0\<rparr>) t'],
           s\<lparr>sequence := 0, lastTimestamp := t'\<rparr>, later)"
proof -
  let ?s1 = "s\<lparr>sequence := int 4096 - 1, lastTimestamp := t\<rparr>"
  have a: "generateN 4096 s (replicate 4096 t @ (t # stalled @ t' # later)) =
     Some (map (\<lambda>k. composeId (s\<lparr>sequence := int k\<rparr>) t) [0..<4096], ?s1, t # stalled @ t' # later)"
    by (rule generateN_burst [OF assms(1)]) simp_all
  have "generate ?s1 (lastTimestamp ?s1 # stalled @ t' # later) =
     Some (Inr (composeId (?s1\<lparr>sequence := 0\<rparr>) t'), ?s1\<lparr>sequence := 0, lastTimestamp := t'\<rparr>, later)"
    using assms(2,3) by (intro generate_overflow) simp_all
  then have "generate ?s1 (t # stalled @ t' # later) =
     Some (Inr (composeId (s\<lparr>sequence := 0\<rparr>) t'), s\<lparr>sequence := 0, lastTimestamp := t'\<rparr>, later)"
    by simp
  then have b: "generateN 1 ?s1 (t # stalled @ t' # later) =
     Some ([composeId (s\<lparr>sequence := 0\<rparr>) t'], s\<lparr>sequence := 0, lastTimestamp := t'\<rparr>, later)"
    by simp
  have "generateN (4096 + 1) s (replicate 4096 t @ (t # stalled @ t' # later)) =
     Some (map (\<lambda>k. composeId (s\<lparr>sequence := int k\<rparr>) t) [0..<4096] @
             [composeId (s\<lparr>sequence := 0\<rparr>) t'],
           s\<lparr>sequence := 0, lastTimestamp := t'\<rparr>, later)"
    by (rule generateN_add [OF a b])
  moreover have "(4096::nat) + 1 = 4097" by simp
  ultimately show ?thesis by (simp only:)
qed

lemma generateN_inv:
  "generateN n s clk = Some (ids, s', clk') \<Longrightarrow> snowflake_inv s \<Longrightarrow> snowflake_inv s'"
proof (induction n arbitrary: s clk ids)
  case 0
  then show ?case by simp
next
  case (Suc n)
  from Suc.prems(1) obtain i s1 clk1 ids1 where
    g: "generate s clk = Some (Inr i, s1, clk1)"
    and r: "generateN n s1 clk1 = Some (ids1, s', clk')"
    by (auto split: option.splits sum.splits prod.splits)
  from generate_inv [OF g Suc.prems(2)] Suc.IH [OF r] show ?case by simp
qed

text \<open>
  C5.  On a generator with the default epoch, whenever \<open>generate\<close> returns an identifier,
  the identifier is composed from the timestamp and the sequence the call left in the
  generator and from the generator's datacenter and worker identifiers, and
  \<open>deconstruct\<close> gives back exactly these four: the timestamp as a Date of that many
  milliseconds since 1970, the worker, the datacenter and the sequence.
\<close>

theorem C5_deconstruct_inverts_generate:
  assumes "snowflake_inv s" and "epoch s = CUSTOM_EPOCH" and "valid_clock clk"
    and "generate s clk = Some (Inr i, s', clk')"
  shows "i = composeId s' (lastTimestamp s') \<and>
     deconstruct i =
       \<lparr>dec_timestamp = Date (lastTimestamp s'), dec_workerId = workerId s,
        dec_datacenterId = datacenterId s, dec_sequence = sequence s',
        dec_epoch = CUSTOM_EPOCH\<rparr>"
proof -
  note g = generate_Inr [OF assms(4) assms(1)]
  have inv': "snowflake_inv s'"
    by (rule generate_inv [OF assms(4) assms(1)])
  from g(8) assms(3) have "\<bar>lastTimestamp s'\<bar> \<le> 8640000000000000"
    by (simp add: valid_clock_def list_all_iff)
  then have "new_Date (lastTimestamp s' - epoch s' + CUSTOM_EPOCH) = Date (lastTimestamp s')"
    using g(4) assms(2) by (simp add: new_Date_def)
  with deconstruct_composeId [OF inv', of "lastTimestamp s'"] g(1,2,3) show ?thesis
    by simp
qed

theorem C5_deconstruct_inverts_generate_witness:
  "snowflake_inv \<lparr>workerId = 1, datacenterId = 1, epoch = CUSTOM_EPOCH,
                   sequence = 0, lastTimestamp = - 1, lock = False\<rparr> \<and>
   valid_clock [1700000000000] \<and>
   generate \<lparr>workerId = 1, datacenterId = 1, epoch = CUSTOM_EPOCH,
             sequence = 0, lastTimestamp = - 1, lock = False\<rparr> [1700000000000] =
     Some (Inr 379755639603335168,
           \<lparr>workerId = 1, datacenterId = 1, epoch = CUSTOM_EPOCH,
            sequence = 0, lastTimestamp = 1700000000000, lock = False\<rparr>, []) \<and>
   deconstruct 379755639603335168 =
     \<lparr>dec_timestamp = Date 1700000000000, dec_workerId = 1, dec_datacenterId = 1,
      dec_sequence = 0, dec_epoch = CUSTOM_EPOCH\<rparr>"
proof -
  let ?s = "\<lparr>workerId = 1, datacenterId = 1, epoch = CUSTOM_EPOCH,
             sequence = 0, lastTimestamp = - 1, lock = False\<rparr>"
  let ?s' = "\<lparr>workerId = 1, datacenterId = 1, epoch = CUSTOM_EPOCH,
             sequence = 0, lastTimestamp = 1700000000000, lock = False\<rparr>"
  have h1: "snowflake_inv ?s" by (simp add: snowflake_inv_def)
  have h2: "epoch ?s = CUSTOM_EPOCH" by simp
  have h3: "valid_clock [1700000000000]" by (simp add: valid_clock_def)
  have h4: "generate ?s [1700000000000] = Some (Inr 379755639603335168, ?s', [])"
    by (simp add: generate_def composeId_def snowflake_constants CUSTOM_EPOCH_def)
  from C5_deconstruct_inverts_generate [OF h1 h2 h3 h4] h1 h3 h4 show ?thesis by simp
qed

text \<open>
  C7.  When the clock reads a millisecond before the last one emitted, \<open>generate\<close> throws
  at once: it returns no identifier, reads the clock that one time only (it does not
  wait), and leaves the generator exactly as it was, so the last emitted millisecond and
  its sequence stay recorded.
\<close>

theorem C7_clock_regression_throws:
  assumes "timestamp < lastTimestamp s"
  shows "generate s (timestamp # later) = Some (Inl ClockMovedBackwards, s, later)"
  using assms by (simp add: generate_def)

theorem C7_clock_regression_throws_witness:
  "(99::int) < lastTimestamp \<lparr>workerId = 1, datacenterId = 1, epoch = CUSTOM_EPOCH,
                               sequence = 7, lastTimestamp = 100, lock = False\<rparr> \<and>
   generate \<lparr>workerId = 1, datacenterId = 1, epoch = CUSTOM_EPOCH,
             sequence = 7, lastTimestamp = 100, lock = False\<rparr> [99, 101] =
     Some (Inl ClockMovedBackwards,
           \<lparr>workerId = 1, datacenterId = 1, epoch = CUSTOM_EPOCH,
            sequence = 7, lastTimestamp = 100, lock = False\<rparr>, [101])"
proof -
  have h: "(99::int) < lastTimestamp \<lparr>workerId = 1, datacenterId = 1, epoch = CUSTOM_EPOCH,
                               sequence = 7, lastTimestamp = 100, lock = False\<rparr>"
    by simp
  from C7_clock_regression_throws [OF h, of "[101]"] h show ?thesis by simp
qed


text \<open>
  C6.  On a generator as the constructor builds it, two successive calls of \<open>generate\<close>
  that both return give strictly increasing identifiers (a clock that went back makes the
  second call throw instead).  If both identifiers carry the same millisecond, the second
  is the first plus one: \<open>deconstruct\<close> shows the same timestamp, datacenter and worker
  and a sequence larger by exactly 1.  Otherwise the second carries a later millisecond
  and sequence 0.  In a burst of 4097 calls for which the clock keeps reading the
  millisecond \<open>t\<close>, the first 4096 identifiers carry \<open>t\<close> with the sequences 0 to 4095,
  and the 4097th call waits until the clock reads a millisecond \<open>t'\<close> beyond \<open>t\<close> and
  returns the identifier of \<open>t'\<close> with sequence 0.
\<close>

theorem C6_strictly_increasing:
  assumes "snowflake_inv s"
  shows "(generate s clk = Some (Inr id1, s1, clk1) \<and>
          generate s1 clk1 = Some (Inr id2, s2, clk2) \<longrightarrow>
            id1 < id2 \<and>
            (lastTimestamp s2 = lastTimestamp s1 \<longrightarrow>
               id2 = id1 + 1 \<and>
               deconstruct id2 =
                 (deconstruct id1)\<lparr>dec_sequence := dec_sequence (deconstruct id1) + 1\<rparr>) \<and>
            (lastTimestamp s2 \<noteq> lastTimestamp s1 \<longrightarrow>
               lastTimestamp s1 < lastTimestamp s2 \<and> sequence s2 = 0)) \<and>
         (lastTimestamp s < t \<and> (\<forall>x \<in> set stalled. x \<le> t) \<and> t < t' \<longrightarrow>
            generateN 4097 s (replicate 4096 t @ t # stalled @ t' # later) =
              Some (map (\<lambda>k. composeId (s\<lparr>sequence := int k\<rparr>) t) [0..<4096] @
                      [composeId (s\<lparr>sequence := 0\<rparr>) t'],
                    s\<lparr>sequence := 0, lastTimestamp := t'\<rparr>, later))"
proof (intro conjI impI)
  assume "lastTimestamp s < t \<and> (\<forall>x \<in> set stalled. x \<le> t) \<and> t < t'"
  then show "generateN 4097 s (replicate 4096 t @ t # stalled @ t' # later) =
      Some (map (\<lambda>k. composeId (s\<lparr>sequence := int k\<rparr>) t) [0..<4096] @
              [composeId (s\<lparr>sequence := 0\<rparr>) t'],
            s\<lparr>sequence := 0, lastTimestamp := t'\<rparr>, later)"
    by (intro generateN_4097) simp_all
next
  assume two: "generate s clk = Some (Inr id1, s1, clk1) \<and>
    generate s1 clk1 = Some (Inr id2, s2, clk2)"
  then have g1: "generate s clk = Some (Inr id1, s1, clk1)"
    and g2: "generate s1 clk1 = Some (Inr id2, s2, clk2)" by simp_all
  have inv1: "snowflake_inv s1" by (rule generate_inv [OF g1 assms])
  have inv2: "snowflake_inv s2" by (rule generate_inv [OF g2 inv1])
  note a = generate_Inr [OF g1 assms] and b = generate_Inr [OF g2 inv1]
  have i1: "id1 = (lastTimestamp s1 - epoch s1) * 4194304 + datacenterId s1 * 131072 +
      workerId s1 * 4096 + sequence s1"
    using a(1) composeId_sum [OF inv1] by simp
  have i2: "id2 = (lastTimestamp s2 - epoch s1) * 4194304 + datacenterId s1 * 131072 +
      workerId s1 * 4096 + sequence s2"
    using b(1) composeId_sum [OF inv2] b(2,3,4) by simp
  show "id1 < id2"
  proof (cases "lastTimestamp s2 = lastTimestamp s1")
    case True
    with b(10) i1 i2 show ?thesis by simp
  next
    case False
    with b(9) b(11) have "lastTimestamp s1 < lastTimestamp s2" "sequence s2 = 0" by simp_all
    with i1 i2 a(7) show ?thesis by simp
  qed
  show "lastTimestamp s1 < lastTimestamp s2" if "lastTimestamp s2 \<noteq> lastTimestamp s1"
    using that b(9) by simp
  show "sequence s2 = 0" if "lastTimestamp s2 \<noteq> lastTimestamp s1"
    using that b(11) by simp
  show "id2 = id1 + 1" if "lastTimestamp s2 = lastTimestamp s1"
    using that b(10) i1 i2 by simp
  show "deconstruct id2 =
      (deconstruct id1)\<lparr>dec_sequence := dec_sequence (deconstruct id1) + 1\<rparr>"
    if same: "lastTimestamp s2 = lastTimestamp s1"
  proof -
    have "deconstruct id1 =
        \<lparr>dec_timestamp = new_Date (lastTimestamp s1 - epoch s1 + CUSTOM_EPOCH),
         dec_workerId = workerId s1, dec_datacenterId = datacenterId s1,
         dec_sequence = sequence s1, dec_epoch = CUSTOM_EPOCH\<rparr>"
      unfolding a(1) by (rule deconstruct_composeId [OF inv1])
    moreover have "deconstruct id2 =
        \<lparr>dec_timestamp = new_Date (lastTimestamp s2 - epoch s2 + CUSTOM_EPOCH),
         dec_workerId = workerId s2, dec_datacenterId = datacenterId s2,
         dec_sequence = sequence s2, dec_epoch = CUSTOM_EPOCH\<rparr>"
      unfolding b(1) by (rule deconstruct_composeId [OF inv2])
    ultimately show ?thesis
      using same b(2,3,4) b(10) by simp
  qed
qed


theorem C6_strictly_increasing_witness:
  "snowflake_inv \<lparr>workerId = 1, datacenterId = 1, epoch = CUSTOM_EPOCH,
                   sequence = 0, lastTimestamp = - 1, lock = False\<rparr> \<and>
   generate \<lparr>workerId = 1, datacenterId = 1, epoch = CUSTOM_EPOCH,
             sequence = 0, lastTimestamp = - 1, lock = False\<rparr>
       [1700000000000, 1700000000000] =
     Some (Inr 379755639603335168,
           \<lparr>workerId = 1, datacenterId = 1, epoch = CUSTOM_EPOCH,
            sequence = 0, lastTimestamp = 1700000000000, lock = False\<rparr>, [1700000000000]) \<and>
   generate \<lparr>workerId = 1, datacenterId = 1, epoch = CUSTOM_EPOCH,
             sequence = 0, lastTimestamp = 1700000000000, lock = False\<rparr> [1700000000000] =
     Some (Inr 379755639603335169,
           \<lparr>workerId = 1, datacenterId = 1, epoch = CUSTOM_EPOCH,
            sequence = 1, lastTimestamp = 1700000000000, lock = False\<rparr>, []) \<and>
   (379755639603335168::int) < 379755639603335169 \<and>
   deconstruct 379755639603335169 =
     (deconstruct 379755639603335168)
       \<lparr>dec_sequence := dec_sequence (deconstruct 379755639603335168) + 1\<rparr> \<and>
   generateN 4097 \<lparr>workerId = 1, datacenterId = 1, epoch = CUSTOM_EPOCH,
                   sequence = 0, lastTimestamp = - 1, lock = False\<rparr>
       (replicate 4096 1700000000000 @ 1700000000000 # [1700000000000] @ 1700000000001 # []) =
     Some (map (\<lambda>k. composeId (\<lparr>workerId = 1, datacenterId = 1, epoch = CUSTOM_EPOCH,
                                   sequence = 0, lastTimestamp = - 1, lock = False\<rparr>
                                  \<lparr>sequence := int k\<rparr>) 1700000000000) [0..<4096] @
             [composeId (\<lparr>workerId = 1, datacenterId = 1, epoch = CUSTOM_EPOCH,
                          sequence = 0, lastTimestamp = - 1, lock = False\<rparr>
                         \<lparr>sequence := 0\<rparr>) 1700000000001],
           \<lparr>workerId = 1, datacenterId = 1, epoch = CUSTOM_EPOCH,
            sequence = 0, lastTimestamp = - 1, lock = False\<rparr>
           \<lparr>sequence := 0, lastTimestamp := 1700000000001\<rparr>, [])"
proof -
  let ?s0 = "\<lparr>workerId = 1, datacenterId = 1, epoch = CUSTOM_EPOCH,
              sequence = 0, lastTimestamp = - 1, lock = False\<rparr>"
  let ?s1 = "\<lparr>workerId = 1, datacenterId = 1, epoch = CUSTOM_EPOCH,
              sequence = 0, lastTimestamp = 1700000000000, lock = False\<rparr>"
  let ?s2 = "\<lparr>workerId = 1, datacenterId = 1, epoch = CUSTOM_EPOCH,
              sequence = 1, lastTimestamp = 1700000000000, lock = False\<rparr>"
  have h1: "snowflake_inv ?s0" by (simp add: snowflake_inv_def)
  have h2: "generate ?s0 [1700000000000, 1700000000000] =
      Some (Inr 379755639603335168, ?s1, [1700000000000])"
    by (simp add: generate_def composeId_def snowflake_constants CUSTOM_EPOCH_def)
  have h3: "generate ?s1 [1700000000000] = Some (Inr 379755639603335169, ?s2, [])"
    by (simp add: generate_def composeId_def snowflake_constants CUSTOM_EPOCH_def)
  have h4: "lastTimestamp ?s0 < 1700000000000 \<and>
      (\<forall>x \<in> set [1700000000000::int]. x \<le> 1700000000000) \<and>
      (1700000000000::int) < 1700000000001" by simp
  have h5: "lastTimestamp ?s2 = lastTimestamp ?s1" by simp
  note inst = C6_strictly_increasing [OF h1, of "[1700000000000, 1700000000000]"
      379755639603335168 "?s1" "[1700000000000]" 379755639603335169 "?s2" "[]"
      1700000000000 "[1700000000000]" 1700000000001 "[]"]
  from inst h2 h3 have c1: "(379755639603335168::int) < 379755639603335169" by blast
  from inst h2 h3 h5 have c2: "deconstruct 379755639603335169 =
     (deconstruct 379755639603335168)
       \<lparr>dec_sequence := dec_sequence (deconstruct 379755639603335168) + 1\<rparr>" by blast
  from inst h4 have c3: "generateN 4097 ?s0
       (replicate 4096 1700000000000 @ 1700000000000 # [1700000000000] @ 1700000000001 # []) =
     Some (map (\<lambda>k. composeId (?s0\<lparr>sequence := int k\<rparr>) 1700000000000) [0..<4096] @
             [composeId (?s0\<lparr>sequence := 0\<rparr>) 1700000000001],
           ?s0\<lparr>sequence := 0, lastTimestamp := 1700000000001\<rparr>, [])" by blast
  from h1 h2 h3 c1 c2 c3 show ?thesis by blast
qed


section \<open>Message creation\<close>

text \<open>
  C10.  \<open>checkChannelPermission\<close> never reads the channels: replacing the whole channel
  table, permission overwrites included, and even asking for another channel of the
  server, gives the same answer.  The answer is: the user owns the server, or is a
  member whose role permissions, ORed together, contain \<open>ADMINISTRATOR\<close> or the
  permission asked for.
\<close>

theorem C10_checkChannelPermission_ignores_overwrites:
  "checkChannelPermission (d\<lparr>channels := chs\<rparr>) userId serverId channelId' permission =
     checkChannelPermission d userId serverId channelId permission \<and>
   checkChannelPermission d userId serverId channelId permission =
     ((case servers d serverId of None \<Rightarrow> False | Some srv \<Rightarrow> ownerId srv = userId) \<or>
      (case findMember d serverId userId of
         None \<Rightarrow> False
       | Some m \<Rightarrow>
           has (foldl (\<lambda>acc p. acc OR p) 0 (sm_rolePermissions m)) ADMINISTRATOR \<or>
           has (foldl (\<lambda>acc p. acc OR p) 0 (sm_rolePermissions m)) permission))"
  by (auto simp: checkChannelPermission_def findMember_def rolePermissions_def Let_def
      split: option.splits)

text \<open>
  The service: a call of \<open>createMessage\<close> for a server channel that returns a message was
  made by an author for whom \<open>checkChannelPermission\<close> grants \<open>SEND_MESSAGES\<close>; without
  it the call throws before anything is written.
\<close>

lemma createMessage_requires_SEND_MESSAGES:
  assumes "channels (db b) (cm_channelId data) = Some ch"
    and "ch_serverId ch = Some serverId" and "serverId \<noteq> 0"
    and "\<not> checkChannelPermission (db b) (cm_authorId data) serverId (cm_channelId data) SEND_MESSAGES"
  shows "\<exists>e. createMessage b p now data = Some (Inl e, b, p)"
  using assms
  by (simp add: createMessage_def precheck_def authorizeSend_def truthy_bigint_def)

text \<open>
  C2.  A member of server 1 whose only role grants \<open>VIEW_CHANNEL\<close> sends to channel 10
  of that server.  \<open>checkChannelPermission\<close> denies \<open>SEND_MESSAGES\<close> and the service's
  \<open>createMessage\<close> throws and writes nothing.  The gateway's \<open>MESSAGE_CREATE\<close> listener,
  for the same user and channel, checks membership only: it stores the message,
  broadcasts it to the room of the channel, publishes it for the other instances and
  acknowledges it.
\<close>

theorem C2_gateway_skips_SEND_MESSAGES:
  "\<not> checkChannelPermission
       \<lparr>channels = [10 \<mapsto> \<lparr>ch_serverId = Some 1, ch_isDeleted = False,
                             ch_permissionOverwrites = [], ch_lastMessageId = None\<rparr>],
        servers = [1 \<mapsto> \<lparr>ownerId = 100\<rparr>],
        serverMembers = [\<lparr>sm_serverId = 1, sm_userId = 200, sm_rolePermissions = [VIEW_CHANNEL]\<rparr>],
        channelRecipients = [], users = Map.empty, messages = [],
             roleMembers = [], notifications = []\<rparr>
       200 1 10 SEND_MESSAGES \<and>
   createMessage
     \<lparr>db = \<lparr>channels = [10 \<mapsto> \<lparr>ch_serverId = Some 1, ch_isDeleted = False,
                                ch_permissionOverwrites = [], ch_lastMessageId = None\<rparr>],
             servers = [1 \<mapsto> \<lparr>ownerId = 100\<rparr>],
             serverMembers = [\<lparr>sm_serverId = 1, sm_userId = 200, sm_rolePermissions = [VIEW_CHANNEL]\<rparr>],
             channelRecipients = [], users = Map.empty, messages = [],
             roleMembers = [], notifications = []\<rparr>,
      redis = \<lparr>rateKeys = Map.empty, presenceKeys = Map.empty, onlineUsers = Map.empty,
                wsUser = Map.empty, wsSession = Map.empty\<rparr>,
      published = []\<rparr>
     \<lparr>snowflakeInstance = \<lparr>workerId = 1, datacenterId = 1, epoch = CUSTOM_EPOCH,
                            sequence = 0, lastTimestamp = - 1, lock = False\<rparr>,
      dateNow = [1700000000000], connectedClients = {''s1''},
      userSockets = [200 \<mapsto> {''s1''}], emitted = []\<rparr>
     0
     \<lparr>cm_channelId = 10, cm_authorId = 200, cm_content = Some ''hi'', cm_attachments = None,
      cm_replyTo = None, cm_nonce = Some ''n1''\<rparr> =
   Some (Inl NoSendPermission,
     \<lparr>db = \<lparr>channels = [10 \<mapsto> \<lparr>ch_serverId = Some 1, ch_isDeleted = False,
                                ch_permissionOverwrites = [], ch_lastMessageId = None\<rparr>],
             servers = [1 \<mapsto> \<lparr>ownerId = 100\<rparr>],
             serverMembers = [\<lparr>sm_serverId = 1, sm_userId = 200, sm_rolePermissions = [VIEW_CHANNEL]\<rparr>],
             channelRecipients = [], users = Map.empty, messages = [],
             roleMembers = [], notifications = []\<rparr>,
      redis = \<lparr>rateKeys = Map.empty, presenceKeys = Map.empty, onlineUsers = Map.empty,
                wsUser = Map.empty, wsSession = Map.empty\<rparr>,
      published = []\<rparr>,
     \<lparr>snowflakeInstance = \<lparr>workerId = 1, datacenterId = 1, epoch = CUSTOM_EPOCH,
                            sequence = 0, lastTimestamp = - 1, lock = False\<rparr>,
      dateNow = [1700000000000], connectedClients = {''s1''},
      userSockets = [200 \<mapsto> {''s1''}], emitted = []\<rparr>) \<and>
   onMessageCreate
     \<lparr>db = \<lparr>channels = [10 \<mapsto> \<lparr>ch_serverId = Some 1, ch_isDeleted = False,
                                ch_permissionOverwrites = [], ch_lastMessageId = None\<rparr>],
             servers = [1 \<mapsto> \<lparr>ownerId = 100\<rparr>],
             serverMembers = [\<lparr>sm_serverId = 1, sm_userId = 200, sm_rolePermissions = [VIEW_CHANNEL]\<rparr>],
             channelRecipients = [], users = Map.empty, messages = [],
             roleMembers = [], notifications = []\<rparr>,
      redis = \<lparr>rateKeys = Map.empty, presenceKeys = Map.empty, onlineUsers = Map.empty,
                wsUser = Map.empty, wsSession = Map.empty\<rparr>,
      published = []\<rparr>
     \<lparr>snowflakeInstance = \<lparr>workerId = 1, datacenterId = 1, epoch = CUSTOM_EPOCH,
                            sequence = 0, lastTimestamp = - 1, lock = False\<rparr>,
      dateNow = [1700000000000], connectedClients = {''s1''},
      userSockets = [200 \<mapsto> {''s1''}], emitted = []\<rparr>
     \<lparr>socket_id = ''s1'', data_authenticated = True, data_user = Some 200\<rparr>
     \<lparr>mc_channelId = 10, mc_content = Some ''hi'', mc_nonce = Some ''n1'', mc_replyTo = None,
      mc_attachments = None\<rparr> =
   Some (Some (MESSAGE_ACK (Some ''n1'') 1),
     \<lparr>db = \<lparr>channels = [10 \<mapsto> \<lparr>ch_serverId = Some 1, ch_isDeleted = False,
                                ch_permissionOverwrites = [], ch_lastMessageId = Some 1\<rparr>],
             servers = [1 \<mapsto> \<lparr>ownerId = 100\<rparr>],
             serverMembers = [\<lparr>sm_serverId = 1, sm_userId = 200, sm_rolePermissions = [VIEW_CHANNEL]\<rparr>],
             channelRecipients = [], users = Map.empty,
             messages = [\<lparr>msg_id = 1, msg_snowflakeId = 379755639603335168, msg_channelId = 10,
                          msg_authorId = 200, msg_content = Some ''hi'', msg_nonce = Some ''n1'',
                          msg_referencedMessageId = None, msg_attachments = []\<rparr>],
             roleMembers = [], notifications = []\<rparr>,
      redis = \<lparr>rateKeys = Map.empty, presenceKeys = Map.empty, onlineUsers = Map.empty,
                wsUser = Map.empty, wsSession = Map.empty\<rparr>,
      published = [(10, MESSAGE_CREATE
                        \<lparr>msg_id = 1, msg_snowflakeId = 379755639603335168, msg_channelId = 10,
                          msg_authorId = 200, msg_content = Some ''hi'', msg_nonce = Some ''n1'',
                          msg_referencedMessageId = None, msg_attachments = []\<rparr>)]\<rparr>,
     \<lparr>snowflakeInstance = \<lparr>workerId = 1, datacenterId = 1, epoch = CUSTOM_EPOCH,
                            sequence = 0, lastTimestamp = 1700000000000, lock = False\<rparr>,
      dateNow = [], connectedClients = {''s1''},
      userSockets = [200 \<mapsto> {''s1''}],
      emitted = [(ChannelRoom 10, MESSAGE_CREATE
                        \<lparr>msg_id = 1, msg_snowflakeId = 379755639603335168, msg_channelId = 10,
                          msg_authorId = 200, msg_content = Some ''hi'', msg_nonce = Some ''n1'',
                          msg_referencedMessageId = None, msg_attachments = []\<rparr>)]\<rparr>)"
  by (simp add: checkChannelPermission_def findMember_def rolePermissions_def has_def
      permission_values createMessage_def precheck_def authorizeSend_def truthy_string_def
      truthy_bigint_def onMessageCreate_def handleMessageCreate_def authorizeGatewaySend_def
      generate_def composeId_def snowflake_constants CUSTOM_EPOCH_def storeMessage_def
      nextMessageId_def nullish_def Let_def)




section \<open>Presence on disconnect\<close>

text \<open>
  What the \<open>disconnect\<close> listener of an authenticated socket does, by the process's own
  \<open>userSockets\<close> table.  If that table still holds another socket of the user, the
  presence record, the online set and the user's row stay as they are and nothing is
  emitted.  If the socket was the last one of the user in the table, the presence is set
  to offline and the user leaves the online set; then, if the user's row exists, exactly
  one offline \<open>PRESENCE_UPDATE\<close> is emitted, and otherwise the listener rejects before
  the broadcast.
\<close>

lemma disconnect_decides_on_local_table:
  assumes "data_authenticated sock" and "data_user sock = Some userId"
    and "userSockets p userId = Some sockets"
    and "onDisconnect b p now sock = (err, b', p')"
  shows "(sockets - {socket_id sock} \<noteq> {} \<longrightarrow>
            err = None \<and>
            presenceKeys (redis b') = presenceKeys (redis b) \<and>
            onlineUsers (redis b') = onlineUsers (redis b) \<and>
            users (db b') = users (db b) \<and>
            emitted p' = emitted p \<and>
            userSockets p' userId = Some (sockets - {socket_id sock})) \<and>
         (sockets - {socket_id sock} = {} \<longrightarrow>
            presenceKeys (redis b') userId =
              Some \<lparr>pr_status = offline, pr_customStatus = None, pr_lastSeenAt = now,
                    pr_expiresAt = now + 300000\<rparr> \<and>
            onlineUsers (redis b') userId = None \<and>
            userSockets p' userId = None \<and>
            (users (db b) userId \<noteq> None \<longrightarrow>
               err = None \<and>
               emitted p' = emitted p @ [(AllSockets, PRESENCE_UPDATE userId offline None now)]) \<and>
            (users (db b) userId = None \<longrightarrow>
               err = Some RecordNotFound \<and> emitted p' = emitted p))"
proof (cases "sockets - {socket_id sock} = {}")
  case True
  let ?r = "updatePresence now (unregisterWebSocket (redis b) userId (socket_id sock))
              userId offline None"
  let ?p2 = "p\<lparr>connectedClients := connectedClients p - {socket_id sock},
               userSockets := (userSockets p)(userId := None)\<rparr>"
  from True assms(1-3) have "onDisconnect b p now sock =
     (case updateUserStatus (db b) userId offline now of
        None \<Rightarrow> (Some RecordNotFound, b\<lparr>redis := ?r\<rparr>, ?p2)
      | Some d \<Rightarrow> (None, b\<lparr>redis := ?r, db := d\<rparr>,
                    broadcastPresence now ?p2 userId offline None))"
    by (simp add: onDisconnect_def Let_def)
  with assms(4) True show ?thesis
    by (auto simp: unregisterWebSocket_def updatePresence_def broadcastPresence_def
        updateUserStatus_def PRESENCE_TTL_def split: option.splits)
next
  case False
  with assms(1-3) have "onDisconnect b p now sock =
     (None, b\<lparr>redis := unregisterWebSocket (redis b) userId (socket_id sock)\<rparr>,
      p\<lparr>connectedClients := connectedClients p - {socket_id sock},
        userSockets := (userSockets p)(userId \<mapsto> sockets - {socket_id sock})\<rparr>)"
    by (simp add: onDisconnect_def Let_def)
  with assms(4) False show ?thesis
    by (auto simp: unregisterWebSocket_def)
qed

text \<open>
  Two gateway processes on one Redis and one store.  User 7 identifies with socket
  \<open>a\<close> on the first process and with socket \<open>b\<close> on the second.
\<close>

lemma two_processes_identify:
  "onIdentified \<lparr>db = \<lparr>channels = Map.empty, servers = Map.empty, serverMembers = [],
            channelRecipients = [], users = [7 \<mapsto> \<lparr>u_status = offline, u_lastSeenAt = 0\<rparr>],
            messages = [], roleMembers = [], notifications = []\<rparr>,
      redis = \<lparr>rateKeys = Map.empty, presenceKeys = Map.empty, onlineUsers = Map.empty,
                wsUser = Map.empty, wsSession = Map.empty\<rparr>,
      published = []\<rparr>
     \<lparr>snowflakeInstance = \<lparr>workerId = 1, datacenterId = 1, epoch = CUSTOM_EPOCH,
                            sequence = 0, lastTimestamp = - 1, lock = False\<rparr>,
      dateNow = [], connectedClients = {''a''}, userSockets = Map.empty,
      emitted = []\<rparr> 1000
     \<lparr>socket_id = ''a'', data_authenticated = False, data_user = None\<rparr> ''sessA'' 7 =
   (None, \<lparr>socket_id = ''a'', data_authenticated = True, data_user = Some 7\<rparr>,
    \<lparr>db = \<lparr>channels = Map.empty, servers = Map.empty, serverMembers = [],
            channelRecipients = [], users = [7 \<mapsto> \<lparr>u_status = online, u_lastSeenAt = 1000\<rparr>],
            messages = [], roleMembers = [], notifications = []\<rparr>,
      redis = \<lparr>rateKeys = Map.empty,
                presenceKeys = [7 \<mapsto> \<lparr>pr_status = online, pr_customStatus = None,
                                        pr_lastSeenAt = 1000, pr_expiresAt = 301000\<rparr>],
                onlineUsers = [7 \<mapsto> 1000],
                wsUser = [7 \<mapsto> {''a''}],
                wsSession = [''a'' \<mapsto> (7, 3601000)]\<rparr>,
      published = []\<rparr>,
    \<lparr>snowflakeInstance = \<lparr>workerId = 1, datacenterId = 1, epoch = CUSTOM_EPOCH,
                            sequence = 0, lastTimestamp = - 1, lock = False\<rparr>,
      dateNow = [], connectedClients = {''a''}, userSockets = [7 \<mapsto> {''a''}],
      emitted = [(AllSockets, PRESENCE_UPDATE 7 online None 1000)]\<rparr>) \<and>
   onIdentified \<lparr>db = \<lparr>channels = Map.empty, servers = Map.empty, serverMembers = [],
            channelRecipients = [], users = [7 \<mapsto> \<lparr>u_status = online, u_lastSeenAt = 1000\<rparr>],
            messages = [], roleMembers = [], notifications = []\<rparr>,
      redis = \<lparr>rateKeys = Map.empty,
                presenceKeys = [7 \<mapsto> \<lparr>pr_status = online, pr_customStatus = None,
                                        pr_lastSeenAt = 1000, pr_expiresAt = 301000\<rparr>],
                onlineUsers = [7 \<mapsto> 1000],
                wsUser = [7 \<mapsto> {''a''}],
                wsSession = [''a'' \<mapsto> (7, 3601000)]\<rparr>,
      published = []\<rparr>
     \<lparr>snowflakeInstance = \<lparr>workerId = 1, datacenterId = 1, epoch = CUSTOM_EPOCH,
                            sequence = 0, lastTimestamp = - 1, lock = False\<rparr>,
      dateNow = [], connectedClients = {''b''}, userSockets = Map.empty,
      emitted = []\<rparr> 2000
     \<lparr>socket_id = ''b'', data_authenticated = False, data_user = None\<rparr> ''sessB'' 7 =
   (None, \<lparr>socket_id = ''b'', data_authenticated = True, data_user = Some 7\<rparr>,
    \<lparr>db = \<lparr>channels = Map.empty, servers = Map.empty, serverMembers = [],
            channelRecipients = [], users = [7 \<mapsto> \<lparr>u_status = online, u_lastSeenAt = 2000\<rparr>],
            messages = [], roleMembers = [], notifications = []\<rparr>,
      redis = \<lparr>rateKeys = Map.empty,
                presenceKeys = [7 \<mapsto> \<lparr>pr_status = online, pr_customStatus = None,
                                        pr_lastSeenAt = 2000, pr_expiresAt = 302000\<rparr>],
                onlineUsers = [7 \<mapsto> 2000],
                wsUser = [7 \<mapsto> {''a'', ''b''}],
                wsSession = [''a'' \<mapsto> (7, 3601000), ''b'' \<mapsto> (7, 3602000)]\<rparr>,
      published = []\<rparr>,
    \<lparr>snowflakeInstance = \<lparr>workerId = 1, datacenterId = 1, epoch = CUSTOM_EPOCH,
                            sequence = 0, lastTimestamp = - 1, lock = False\<rparr>,
      dateNow = [], connectedClients = {''b''}, userSockets = [7 \<mapsto> {''b''}],
      emitted = [(AllSockets, PRESENCE_UPDATE 7 online None 2000)]\<rparr>)"
  by (auto simp: onIdentified_def Let_def registerWebSocket_def updatePresence_def
      updateUserStatus_def broadcastPresence_def PRESENCE_TTL_def fun_eq_iff)

text \<open>
  C9.  In the state the two processes have reached, socket \<open>a\<close> disconnects.  Socket
  \<open>b\<close> of user 7 is still registered in Redis (\<open>hasActiveConnections\<close> holds and
  \<open>getUserSockets\<close> gives \<open>b\<close>) and still connected to the second process.  The first
  process, whose own table has become empty, nevertheless sets the presence of user 7 to
  offline in Redis and in the user's row, removes the user from the online set and emits
  the offline \<open>PRESENCE_UPDATE\<close>.
\<close>

theorem C9_offline_while_socket_registered:
  "onDisconnect \<lparr>db = \<lparr>channels = Map.empty, servers = Map.empty, serverMembers = [],
            channelRecipients = [], users = [7 \<mapsto> \<lparr>u_status = online, u_lastSeenAt = 2000\<rparr>],
            messages = [], roleMembers = [], notifications = []\<rparr>,
      redis = \<lparr>rateKeys = Map.empty,
                presenceKeys = [7 \<mapsto> \<lparr>pr_status = online, pr_customStatus = None,
                                        pr_lastSeenAt = 2000, pr_expiresAt = 302000\<rparr>],
                onlineUsers = [7 \<mapsto> 2000],
                wsUser = [7 \<mapsto> {''a'', ''b''}],
                wsSession = [''a'' \<mapsto> (7, 3601000), ''b'' \<mapsto> (7, 3602000)]\<rparr>,
      published = []\<rparr>
     \<lparr>snowflakeInstance = \<lparr>workerId = 1, datacenterId = 1, epoch = CUSTOM_EPOCH,
                            sequence = 0, lastTimestamp = - 1, lock = False\<rparr>,
      dateNow = [], connectedClients = {''a''}, userSockets = [7 \<mapsto> {''a''}],
      emitted = [(AllSockets, PRESENCE_UPDATE 7 online None 1000)]\<rparr> 3000
     \<lparr>socket_id = ''a'', data_authenticated = True, data_user = Some 7\<rparr> =
   (None, \<lparr>db = \<lparr>channels = Map.empty, servers = Map.empty, serverMembers = [],
            channelRecipients = [], users = [7 \<mapsto> \<lparr>u_status = offline, u_lastSeenAt = 3000\<rparr>],
            messages = [], roleMembers = [], notifications = []\<rparr>,
      redis = \<lparr>rateKeys = Map.empty,
                presenceKeys = [7 \<mapsto> \<lparr>pr_status = offline, pr_customStatus = None,
                                        pr_lastSeenAt = 3000, pr_expiresAt = 303000\<rparr>],
                onlineUsers = Map.empty,
                wsUser = [7 \<mapsto> {''b''}],
                wsSession = [''b'' \<mapsto> (7, 3602000)]\<rparr>,
      published = []\<rparr>,
    \<lparr>snowflakeInstance = \<lparr>workerId = 1, datacenterId = 1, epoch = CUSTOM_EPOCH,
                            sequence = 0, lastTimestamp = - 1, lock = False\<rparr>,
      dateNow = [], connectedClients = {}, userSockets = Map.empty,
      emitted = [(AllSockets, PRESENCE_UPDATE 7 online None 1000),
                 (AllSockets, PRESENCE_UPDATE 7 offline None 3000)]\<rparr>) \<and>
   hasActiveConnections (redis \<lparr>db = \<lparr>channels = Map.empty, servers = Map.empty, serverMembers = [],
            channelRecipients = [], users = [7 \<mapsto> \<lparr>u_status = offline, u_lastSeenAt = 3000\<rparr>],
            messages = [], roleMembers = [], notifications = []\<rparr>,
      redis = \<lparr>rateKeys = Map.empty,
                presenceKeys = [7 \<mapsto> \<lparr>pr_status = offline, pr_customStatus = None,
                                        pr_lastSeenAt = 3000, pr_expiresAt = 303000\<rparr>],
                onlineUsers = Map.empty,
                wsUser = [7 \<mapsto> {''b''}],
                wsSession = [''b'' \<mapsto> (7, 3602000)]\<rparr>,
      published = []\<rparr>) 7 \<and>
   getUserSockets (redis \<lparr>db = \<lparr>channels = Map.empty, servers = Map.empty, serverMembers = [],
            channelRecipients = [], users = [7 \<mapsto> \<lparr>u_status = offline, u_lastSeenAt = 3000\<rparr>],
            messages = [], roleMembers = [], notifications = []\<rparr>,
      redis = \<lparr>rateKeys = Map.empty,
                presenceKeys = [7 \<mapsto> \<lparr>pr_status = offline, pr_customStatus = None,
                                        pr_lastSeenAt = 3000, pr_expiresAt = 303000\<rparr>],
                onlineUsers = Map.empty,
                wsUser = [7 \<mapsto> {''b''}],
                wsSession = [''b'' \<mapsto> (7, 3602000)]\<rparr>,
      published = []\<rparr>) 7 = {''b''}"
  by (auto simp: onDisconnect_def Let_def unregisterWebSocket_def updatePresence_def
      updateUserStatus_def broadcastPresence_def PRESENCE_TTL_def hasActiveConnections_def
      getUserSockets_def fun_eq_iff)


section \<open>Rate limit of message sends\<close>

text \<open>
  A message that mentions a role with a member other than the author: the row and the
  notification for the mentioned user are stored and the channel's last message is set,
  then the call throws the TypeError of \<open>createMentionNotifications\<close>.  The mention of
  the author is skipped.
\<close>

lemma createMessage_role_mention_throws:
  "createMessage \<lparr>db = \<lparr>channels = [10 \<mapsto> \<lparr>ch_serverId = Some 1, ch_isDeleted = False,
                                ch_permissionOverwrites = [], ch_lastMessageId = None\<rparr>],
             servers = [1 \<mapsto> \<lparr>ownerId = 100\<rparr>],
             serverMembers = [\<lparr>sm_serverId = 1, sm_userId = 200,
                               sm_rolePermissions = [SEND_MESSAGES]\<rparr>],
             channelRecipients = [], users = Map.empty, messages = [],
             roleMembers = [(5, 300)], notifications = []\<rparr>,
      redis = \<lparr>rateKeys = Map.empty, presenceKeys = Map.empty, onlineUsers = Map.empty,
                wsUser = Map.empty, wsSession = Map.empty\<rparr>,
      published = []\<rparr>
     \<lparr>snowflakeInstance = \<lparr>workerId = 1, datacenterId = 1, epoch = CUSTOM_EPOCH,
                            sequence = 0, lastTimestamp = - 1, lock = False\<rparr>,
      dateNow = [1700000000000], connectedClients = {},
      userSockets = Map.empty, emitted = []\<rparr>
     0
     \<lparr>cm_channelId = 10, cm_authorId = 200, cm_content = Some ''hello <@&5> <@300> <@200>'',
      cm_attachments = None, cm_replyTo = None, cm_nonce = None\<rparr> =
   Some (Inl TypeError,
     \<lparr>db = \<lparr>channels = [10 \<mapsto> \<lparr>ch_serverId = Some 1, ch_isDeleted = False,
                                ch_permissionOverwrites = [], ch_lastMessageId = Some 1\<rparr>],
             servers = [1 \<mapsto> \<lparr>ownerId = 100\<rparr>],
             serverMembers = [\<lparr>sm_serverId = 1, sm_userId = 200,
                               sm_rolePermissions = [SEND_MESSAGES]\<rparr>],
             channelRecipients = [], users = Map.empty,
             messages = [\<lparr>msg_id = 1, msg_snowflakeId = 379755639603335168, msg_channelId = 10,
                         msg_authorId = 200, msg_content = Some ''hello <@&5> <@300> <@200>'',
                         msg_nonce = None, msg_referencedMessageId = None,
                         msg_attachments = []\<rparr>],
             roleMembers = [(5, 300)],
             notifications = [\<lparr>n_userId = 300, n_type = mention, n_messageId = 1,
                               n_channelId = 10, n_sourceUserId = 200\<rparr>]\<rparr>,
      redis = \<lparr>rateKeys = [(200, 10) \<mapsto> \<lparr>rate_count = 1, rate_expiresAt = Some 60000\<rparr>],
                presenceKeys = Map.empty, onlineUsers = Map.empty,
                wsUser = Map.empty, wsSession = Map.empty\<rparr>,
      published = []\<rparr>,
     \<lparr>snowflakeInstance = \<lparr>workerId = 1, datacenterId = 1, epoch = CUSTOM_EPOCH,
                            sequence = 0, lastTimestamp = 1700000000000, lock = False\<rparr>,
      dateNow = [], connectedClients = {},
      userSockets = Map.empty, emitted = []\<rparr>)"
  by (simp add: createMessage_def precheck_def authorizeSend_def checkChannelPermission_def
      findMember_def rolePermissions_def has_def permission_values truthy_string_def
      truthy_bigint_def rateLimitCount_def redis_incr_def redis_expire_def rate_live_def
      generate_def composeId_def snowflake_constants CUSTOM_EPOCH_def storeMessage_def
      nextMessageId_def nullish_def Let_def extractMentions_def matchMention_def isDigit_def
      createMentionNotifications_def membersOfRole_def parseBigInt_def digitValue_def
      bigintToString_def natToString.simps)




lemma storeMessage_tables [simp]:
  "servers (storeMessage d m) = servers d"
  "serverMembers (storeMessage d m) = serverMembers d"
  "channelRecipients (storeMessage d m) = channelRecipients d"
  by (simp_all add: storeMessage_def)

lemma storeMessage_channel:
  "channels (storeMessage d m) c =
     (if c = msg_channelId m
      then map_option (\<lambda>ch. ch\<lparr>ch_lastMessageId := Some (msg_id m)\<rparr>) (channels d c)
      else channels d c)"
  by (simp add: storeMessage_def split: option.splits)

lemma checkChannelPermission_storeMessage [simp]:
  "checkChannelPermission (storeMessage d m) u sv c perm = checkChannelPermission d u sv c perm"
  by (simp add: checkChannelPermission_def findMember_def)

lemma authorizeSend_storeMessage [simp]:
  "authorizeSend d data (ch\<lparr>ch_lastMessageId := x\<rparr>) = authorizeSend d data ch"
  "authorizeSend (storeMessage d m) data ch = authorizeSend d data ch"
  by (simp_all add: authorizeSend_def findRecipient_def cong: option.case_cong)

lemma precheck_storeMessage [simp]: "precheck (storeMessage d m) data = precheck d data"
proof (cases "channels d (cm_channelId data)")
  case None
  then show ?thesis by (auto simp: precheck_def storeMessage_channel)
next
  case (Some ch)
  then show ?thesis by (auto simp: precheck_def storeMessage_channel)
qed

lemma precheck_notifications [simp]:
  "precheck (d\<lparr>notifications := n\<rparr>) data = precheck d data"
  by (simp add: precheck_def authorizeSend_def checkChannelPermission_def findMember_def
      findRecipient_def cong: option.case_cong if_cong)

lemma precheck_notifyMentionedUsers [simp]:
  "precheck (notifyMentionedUsers d m userIds) data = precheck d data"
  by (induction userIds arbitrary: d) simp_all

lemma messages_notifyMentionedUsers [simp]:
  "messages (notifyMentionedUsers d m userIds) = messages d"
  by (induction userIds arbitrary: d) simp_all














end
